theory Spec2Isabelle
  imports Complex_Main
begin

section \<open>Data model\<close>

text \<open>
  The orchestration layer of the backend: the controllers \<^verbatim>\<open>heightController\<close>,
  \<^verbatim>\<open>deforestationController\<close>, \<^verbatim>\<open>miningController\<close>, \<^verbatim>\<open>fireController\<close> and
  \<^verbatim>\<open>segmentController\<close> over the \<^verbatim>\<open>SegmentationResult\<close> and \<^verbatim>\<open>Alert\<close> collections, and
  \<^verbatim>\<open>imageryController\<close> over its result files.

  Modelling conventions.
  \<^item> JavaScript numbers are idealised as \<^typ>\<open>real\<close>; rounding of IEEE doubles is not modelled.
  \<^item> The collection is the list of its documents in insertion order; the position of a
    document is its \<^verbatim>\<open>_id\<close>. A \<^verbatim>\<open>save()\<close> runs the validation of the schema and
    rejects a document that fails it; connection errors are outside the model.
  \<^item> A \<^verbatim>\<open>userId\<close> in a request has passed the \<^verbatim>\<open>isMongoId\<close> check of the route.
  \<^item> \<^verbatim>\<open>Date.now()\<close> and \<^verbatim>\<open>Math.random()\<close> are inputs (the record \<open>clock\<close>), already
    rendered as the strings the template literals splice in.
  \<^item> Only the fields of a document that the orchestration logic reads or writes are kept:
    identifiers, status, bounds, buildings, detections, summary, error and batch metadata.
  \<^item> HTTP responses sent from a close handler after the 202 answer are not modelled; the
    model follows the collections and the result files.
\<close>

record bounds =
  minLat :: real
  minLng :: real
  maxLat :: real
  maxLng :: real

datatype job_status = Processing | Completed | Failed | Queued

datatype severity = Low | Medium | High | Critical

text \<open>A leaf of a parsed JSON document, as far as the summaries need it.\<close>

datatype jv = JNum real | JStr string | JObj "(string \<times> jv) list"

fun truthy :: "jv \<Rightarrow> bool" where
  "truthy (JNum x) = (x \<noteq> 0)"
| "truthy (JStr s) = (s \<noteq> [])"
| "truthy (JObj _) = True"

type_synonym jobject = "(string \<times> jv) list"

text \<open>\<^verbatim>\<open>results.summary?.k || d\<close>\<close>

definition field_or :: "jobject option \<Rightarrow> string \<Rightarrow> jv \<Rightarrow> jv" where
  "field_or s k d =
     (case s of
        None \<Rightarrow> d
      | Some kvs \<Rightarrow>
          (case map_of kvs k of
             None \<Rightarrow> d
           | Some v \<Rightarrow> if truthy v then v else d))"

text \<open>An entry of \<^verbatim>\<open>detections\<close> (\<^verbatim>\<open>detectionSchema\<close>).\<close>

record detection =
  det_class :: string
  det_confidence :: real
  det_bbox :: "real list"
  det_center :: "real list option"
  det_area :: "real option"
  det_severity :: "severity option"

text \<open>An entry of \<^verbatim>\<open>coordinates.buildings\<close>: \<^verbatim>\<open>{ lat, lng, id }\<close>.\<close>

record building_ref =
  lat :: real
  lng :: real
  ident :: string

text \<open>A \<^verbatim>\<open>SegmentationResult\<close> document.\<close>

record job_record =
  userId :: string
  processingId :: "string option"
  modelUsed :: string
  inputType :: string
  coord_bounds :: "bounds option"
  coord_buildings :: "building_ref list"
  zoneName :: string
  confidence :: "real option"
  status :: job_status
  environmentalRisk :: string
  detections :: "detection list"
  summary :: "jobject option"
  meta_analysisType :: string
  meta_error :: "string option"
  meta_batchId :: "string option"
  meta_chunkIndex :: "nat option"
  meta_totalBuildings :: "nat option"

type_synonym store = "job_record list"

record clock =
  stamp :: string
  rnd :: string
  today :: string

text \<open>Synchronous rejections of the admission paths: HTTP 400, and HTTP 500 from the
  \<^verbatim>\<open>catch\<close> of the controller when something it awaits throws.\<close>

datatype reject =
    MissingCoordinates
  | InvalidFormat
  | InvalidBounds
  | AreaTooLarge
  | EmptyBatch
  | BatchTooLarge
  | ServerError

section \<open>Schema validation\<close>

text \<open>
  What \<^verbatim>\<open>save()\<close> checks, as far as the documents built by the controllers can fail it:
  \<^verbatim>\<open>processingId\<close> and \<^verbatim>\<open>confidence\<close> are required, \<^verbatim>\<open>confidence\<close> lies between 0 and
  100, and every detection satisfies \<^verbatim>\<open>detectionSchema\<close>. The remaining constraints hold
  of every document these controllers build (the enumerated strings are literals of the
  enumeration, the zone names are short). The three analysis controllers also store
  \<^verbatim>\<open>"anonymous"\<close> where an ObjectId is expected; their documents already fail on
  \<^verbatim>\<open>confidence\<close>.
\<close>

definition detection_classes :: "string list" where
  "detection_classes =
     [''deforestation'', ''mining'', ''forest_fire'', ''agriculture'', ''urban_expansion'',
      ''water_body'', ''infrastructure'']"

definition valid_detection :: "detection \<Rightarrow> bool" where
  "valid_detection d =
     (det_class d \<in> set detection_classes \<and>
      0 \<le> det_confidence d \<and> det_confidence d \<le> 100 \<and>
      length (det_bbox d) = 4 \<and>
      (case det_center d of
         None \<Rightarrow> True
       | Some c \<Rightarrow> length c = 2 \<and> - 90 \<le> c ! 1 \<and> c ! 1 \<le> 90 \<and> - 180 \<le> c ! 0 \<and> c ! 0 \<le> 180) \<and>
      (case det_area d of None \<Rightarrow> True | Some a \<Rightarrow> 0 \<le> a))"

definition valid_record :: "job_record \<Rightarrow> bool" where
  "valid_record r =
     (processingId r \<noteq> None \<and>
      (case confidence r of None \<Rightarrow> False | Some c \<Rightarrow> 0 \<le> c \<and> c \<le> 100) \<and>
      list_all valid_detection (detections r))"

text \<open>The beginning of the message of the \<^verbatim>\<open>ValidationError\<close>; the rest names the paths.\<close>

definition validation_message :: string where
  "validation_message = ''SegmentationResult validation failed''"

datatype kind = BuildingHeight | Deforestation | Mining | Fire

text \<open>
  A running external process: the kind of the job, its processing id, the \<^verbatim>\<open>_id\<close> of
  the document it was created for and the in-memory document its close handler holds.
\<close>

record job =
  job_kind :: kind
  job_pid :: string
  job_doc_id :: nat
  job_doc :: job_record

section \<open>Bounds validation and area\<close>

text \<open>\<^verbatim>\<open>(maxLat - minLat) * (maxLng - minLng) * 111 * 111\<close>, the expression of the height,
  deforestation, mining and fire controllers.\<close>

definition areaSize :: "bounds \<Rightarrow> real" where
  "areaSize b = (maxLat b - minLat b) * (maxLng b - minLng b) * 111 * 111"

text \<open>\<^verbatim>\<open>calculateAreaSize\<close> of the segment controller.\<close>

definition calculateAreaSize :: "real \<Rightarrow> real \<Rightarrow> real \<Rightarrow> real \<Rightarrow> real" where
  "calculateAreaSize minLat' minLng' maxLat' maxLng' =
     (let avgLat = (minLat' + maxLat') / 2;
          latDistance = (maxLat' - minLat') * 111.32;
          lngDistance = (maxLng' - minLng') * 111.32 * cos ((avgLat * pi) / 180)
      in latDistance * lngDistance)"

text \<open>The formula of the specification, for comparison.\<close>

definition spec_area :: "bounds \<Rightarrow> real" where
  "spec_area b =
     (maxLat b - minLat b) * 111.32 * (maxLng b - minLng b) * 111.32
       * cos (((minLat b + maxLat b) / 2) * pi / 180)"

section \<open>Admission of direct jobs\<close>

record coordinates =
  c_bounds :: "bounds option"
  c_lat :: "real option"
  c_lng :: "real option"
  c_radius :: "real option"

record request =
  rq_coordinates :: "coordinates option"
  rq_userId :: "string option"
  rq_zoneName :: "string option"

definition ANONYMOUS_USER_ID :: string where
  "ANONYMOUS_USER_ID = ''000000000000000000000000''"

text \<open>Truthiness of an optional number: present and non-zero.\<close>

definition num_truthy :: "real option \<Rightarrow> bool" where
  "num_truthy x = (case x of None \<Rightarrow> False | Some v \<Rightarrow> v \<noteq> 0)"

text \<open>Lines 22--40 of \<^verbatim>\<open>estimateBuildingHeights\<close>: bounds as given, or a point with a radius.\<close>

definition height_bounds :: "coordinates \<Rightarrow> bounds option" where
  "height_bounds c =
     (case c_bounds c of
        Some b \<Rightarrow> Some b
      | None \<Rightarrow>
          if num_truthy (c_lat c) \<and> num_truthy (c_lng c) then
            let radius = (if num_truthy (c_radius c) then the (c_radius c) else 1000);
                radiusInDegrees = radius / 111000
            in Some \<lparr> minLat = the (c_lat c) - radiusInDegrees,
                      minLng = the (c_lng c) - radiusInDegrees,
                      maxLat = the (c_lat c) + radiusInDegrees,
                      maxLng = the (c_lng c) + radiusInDegrees \<rparr>
          else None)"

definition new_record ::
  "string \<Rightarrow> string \<Rightarrow> string \<Rightarrow> real option \<Rightarrow> bounds \<Rightarrow> string \<Rightarrow> string \<Rightarrow> job_record" where
  "new_record uid pid model conf b zone atype =
     \<lparr> userId = uid, processingId = Some pid, modelUsed = model,
       inputType = ''geographic_bounds'', coord_bounds = Some b, coord_buildings = [],
       zoneName = zone, confidence = conf, status = Processing, environmentalRisk = ''Low'',
       detections = [], summary = None,
       meta_analysisType = atype, meta_error = None, meta_batchId = None,
       meta_chunkIndex = None, meta_totalBuildings = None \<rparr>"

definition str_or :: "string option \<Rightarrow> string \<Rightarrow> string" where
  "str_or s d = (case s of None \<Rightarrow> d | Some v \<Rightarrow> if v = [] then d else v)"

definition mk_pid :: "string \<Rightarrow> clock \<Rightarrow> string" where
  "mk_pid prefix ck = prefix @ ''_'' @ stamp ck @ ''_'' @ rnd ck"

text \<open>\<^verbatim>\<open>await segmentationResult.save()\<close> of a new document that passes the validation,
  followed by the start of the analysis process.\<close>

definition start_job :: "kind \<Rightarrow> string \<Rightarrow> job_record \<Rightarrow> store \<Rightarrow> (reject + job) \<times> store" where
  "start_job k pid r st =
     (Inr \<lparr> job_kind = k, job_pid = pid, job_doc_id = length st, job_doc = r \<rparr>, st @ [r])"

text \<open>\<^verbatim>\<open>estimateBuildingHeights\<close> up to the 202 answer. The document it builds has its
  \<^verbatim>\<open>processingId\<close> and the \<^verbatim>\<open>confidence\<close> 85, so the validation accepts it
  (\<open>height_record_valid\<close>).\<close>

definition estimateBuildingHeights :: "clock \<Rightarrow> request \<Rightarrow> store \<Rightarrow> (reject + job) \<times> store" where
  "estimateBuildingHeights ck req st =
     (case rq_coordinates req of
        None \<Rightarrow> (Inl MissingCoordinates, st)
      | Some c \<Rightarrow>
          (case height_bounds c of
             None \<Rightarrow> (Inl InvalidFormat, st)
           | Some b \<Rightarrow>
               if areaSize b > 100 then (Inl AreaTooLarge, st)
               else
                 let pid = mk_pid ''height'' ck
                 in start_job BuildingHeight pid
                      (new_record (str_or (rq_userId req) ANONYMOUS_USER_ID) pid
                         ''building_height_estimation_v1'' (Some 85) b
                         (''Height Analysis '' @ today ck) ''building_height'') st))"

text \<open>The common shape of \<^verbatim>\<open>analyzeDeforestation\<close>, \<^verbatim>\<open>detectMiningActivities\<close> and
  \<^verbatim>\<open>detectForestFires\<close>; they differ in the ceiling and in the constants they store.
  None of them sets \<^verbatim>\<open>confidence\<close>. When \<^verbatim>\<open>save()\<close> rejects the document, the
  \<^verbatim>\<open>catch\<close> of the controller answers 500; no process is started.\<close>

definition bounded_admission ::
  "kind \<Rightarrow> real \<Rightarrow> string \<Rightarrow> string \<Rightarrow> string \<Rightarrow> string \<Rightarrow>
   clock \<Rightarrow> request \<Rightarrow> store \<Rightarrow> (reject + job) \<times> store" where
  "bounded_admission k limit prefix model zone atype ck req st =
     (case rq_coordinates req of
        None \<Rightarrow> (Inl MissingCoordinates, st)
      | Some c \<Rightarrow>
          (case c_bounds c of
             None \<Rightarrow> (Inl MissingCoordinates, st)
           | Some b \<Rightarrow>
               if minLat b \<ge> maxLat b \<or> minLng b \<ge> maxLng b then (Inl InvalidBounds, st)
               else if areaSize b > limit then (Inl AreaTooLarge, st)
               else
                 let pid = mk_pid prefix ck;
                     segmentationResult =
                       new_record (str_or (rq_userId req) ''anonymous'') pid model None b
                         (str_or (rq_zoneName req) (zone @ '' '' @ today ck)) atype
                 in if valid_record segmentationResult
                    then start_job k pid segmentationResult st
                    else (Inl ServerError, st)))"

definition analyzeDeforestation :: "clock \<Rightarrow> request \<Rightarrow> store \<Rightarrow> (reject + job) \<times> store" where
  "analyzeDeforestation =
     bounded_admission Deforestation 10000 ''deforestation'' ''deforestation_detection_v2''
       ''Deforestation Analysis'' ''deforestation''"

definition detectMiningActivities :: "clock \<Rightarrow> request \<Rightarrow> store \<Rightarrow> (reject + job) \<times> store" where
  "detectMiningActivities =
     bounded_admission Mining 5000 ''mining'' ''mining_detection_v3''
       ''Mining Detection'' ''mining_detection''"

definition detectForestFires :: "clock \<Rightarrow> request \<Rightarrow> store \<Rightarrow> (reject + job) \<times> store" where
  "detectForestFires =
     bounded_admission Fire 50000 ''fire'' ''fire_detection_v4''
       ''Fire Detection'' ''fire_detection''"

section \<open>Alert evaluation\<close>

text \<open>An \<^verbatim>\<open>Alert\<close> document, without the rendered title and message texts.\<close>

record alert =
  al_userId :: string
  al_zoneId :: "string option"
  al_alertType :: string
  al_severity :: severity
  al_latitude :: "real option"
  al_longitude :: "real option"
  al_affectedArea :: real
  al_confidence :: real

definition nth_opt :: "'a list \<Rightarrow> nat \<Rightarrow> 'a option" where
  "nth_opt xs i = (if i < length xs then Some (xs ! i) else None)"

text \<open>The document built by \<^verbatim>\<open>new Alert({...})\<close> in \<^verbatim>\<open>createAlertsFromDetections\<close>.\<close>

definition alert_of :: "string \<Rightarrow> string option \<Rightarrow> detection \<Rightarrow> alert" where
  "alert_of uid zone d =
     \<lparr> al_userId = uid,
       al_zoneId = zone,
       al_alertType = det_class d,
       al_severity = (case det_severity d of None \<Rightarrow> Medium | Some s \<Rightarrow> s),
       al_latitude = (case det_center d of None \<Rightarrow> None | Some c \<Rightarrow> nth_opt c 1),
       al_longitude = (case det_center d of None \<Rightarrow> None | Some c \<Rightarrow> nth_opt c 0),
       al_affectedArea = (case det_area d of None \<Rightarrow> 0 | Some a \<Rightarrow> a),
       al_confidence = det_confidence d \<rparr>"

text \<open>What \<^verbatim>\<open>alert.save()\<close> checks (\<^verbatim>\<open>alertSchema\<close>): \<^verbatim>\<open>userId\<close> is an ObjectId,
  \<^verbatim>\<open>zoneId\<close> is present, \<^verbatim>\<open>alertType\<close> is one of the enumeration, and the numbers are
  within their bounds. The length limits of title and message are not modelled.\<close>

definition is_hex :: "char \<Rightarrow> bool" where
  "is_hex c = (c \<in> set ''0123456789abcdefABCDEF'')"

definition is_object_id :: "string \<Rightarrow> bool" where
  "is_object_id s = (length s = 24 \<and> list_all is_hex s)"

definition alert_types :: "string list" where
  "alert_types = detection_classes @ [''system'']"

definition valid_alert :: "alert \<Rightarrow> bool" where
  "valid_alert a =
     (is_object_id (al_userId a) \<and>
      (case al_zoneId a of None \<Rightarrow> False | Some z \<Rightarrow> z \<noteq> []) \<and>
      al_alertType a \<in> set alert_types \<and>
      (case al_latitude a of None \<Rightarrow> True | Some x \<Rightarrow> - 90 \<le> x \<and> x \<le> 90) \<and>
      (case al_longitude a of None \<Rightarrow> True | Some x \<Rightarrow> - 180 \<le> x \<and> x \<le> 180) \<and>
      0 \<le> al_affectedArea a \<and>
      0 \<le> al_confidence a \<and> al_confidence a \<le> 100)"

text \<open>The loop of \<^verbatim>\<open>createAlertsFromDetections\<close>, threading the alert collection and
  the counter \<^verbatim>\<open>alertsCreated\<close>. When \<^verbatim>\<open>alert.save()\<close> rejects, the \<^verbatim>\<open>catch\<close> inside
  the loop logs the error and the loop goes on.\<close>

fun alerts_loop :: "string \<Rightarrow> string option \<Rightarrow> real \<Rightarrow> detection list \<Rightarrow> alert list \<times> nat \<Rightarrow> alert list \<times> nat" where
  "alerts_loop uid zone threshold [] acc = acc"
| "alerts_loop uid zone threshold (d # ds) (alerts, alertsCreated) =
     (if det_confidence d \<ge> threshold
      then (if valid_alert (alert_of uid zone d)
            then alerts_loop uid zone threshold ds (alerts @ [alert_of uid zone d], alertsCreated + 1)
            else alerts_loop uid zone threshold ds (alerts, alertsCreated))
      else alerts_loop uid zone threshold ds (alerts, alertsCreated))"

text \<open>\<^verbatim>\<open>threshold = 70\<close> is the default of the parameter.\<close>

definition createAlertsFromDetections ::
  "string \<Rightarrow> string option \<Rightarrow> detection list \<Rightarrow> real option \<Rightarrow> alert list \<Rightarrow> alert list \<times> nat" where
  "createAlertsFromDetections uid zone ds threshold alerts =
     alerts_loop uid zone (case threshold of None \<Rightarrow> 70 | Some t \<Rightarrow> t) ds (alerts, 0)"

definition calculateEnvironmentalRisk :: "detection list option \<Rightarrow> string" where
  "calculateEnvironmentalRisk detections' =
     (if detections' = None \<or> detections' = Some [] then ''Low''
      else
        let ds = the detections';
            criticalCount = length (filter (\<lambda>d. det_severity d = Some Critical) ds);
            highCount = length (filter (\<lambda>d. det_severity d = Some High) ds);
            fireDetections = length (filter (\<lambda>d. det_class d = ''forest_fire'') ds);
            miningDetections = length (filter (\<lambda>d. det_class d = ''mining'') ds)
        in if criticalCount > 2 \<or> fireDetections > 0 then ''Critical''
           else if criticalCount > 0 \<or> highCount > 2 \<or> miningDetections > 1 then ''High''
           else if highCount > 0 then ''Medium''
           else ''Low'')"

section \<open>Synchronous segmentation of a geographic area\<close>

text \<open>What the executor reports: the process could not be started, or it closed with an
  exit code (\<^verbatim>\<open>null\<close> when killed by a signal) and its collected output streams.\<close>

datatype proc_outcome = StartError string | Closed "int option" string string

record sat_result =
  sr_detections :: "detection list option"
  sr_confidence :: real

definition type_error_message :: string where
  "type_error_message = ''Cannot read properties of undefined''"

record seg_request =
  sq_bounds :: "real list option"
  sq_userId :: string
  sq_zoneName :: "string option"
  sq_alertThreshold :: "real option"

datatype seg_response =
    SegRejected reject
  | SegFailed string
  | SegOk nat real nat

text \<open>\<^verbatim>\<open>processAreaWithSatelliteData\<close>: the promise resolves with the parsed document or
  rejects with a message. \<open>parse\<close> stands for \<^verbatim>\<open>JSON.parse\<close> followed by the reading of the
  fields; \<open>Inl\<close> carries the message of the exception.\<close>

definition processAreaWithSatelliteData ::
  "(string \<Rightarrow> string + sat_result) \<Rightarrow> proc_outcome \<Rightarrow> string + sat_result" where
  "processAreaWithSatelliteData parse out =
     (case out of
        StartError m \<Rightarrow> Inl (''Failed to start satellite processing: '' @ m)
      | Closed code stdout stderr \<Rightarrow>
          if code \<noteq> Some 0 then Inl (''Satellite processing failed: '' @ stderr)
          else (case parse stdout of
                  Inl m \<Rightarrow> Inl (''Failed to parse satellite processing output: '' @ m)
                | Inr r \<Rightarrow> Inr r))"

text \<open>\<^verbatim>\<open>processGeographicArea\<close>. The document it builds has no \<^verbatim>\<open>processingId\<close>; when
  \<^verbatim>\<open>save()\<close> rejects it, or \<^verbatim>\<open>result.detections.length\<close> throws, the \<^verbatim>\<open>catch\<close> answers
  500 with the message of the error.\<close>

definition processGeographicArea ::
  "(string \<Rightarrow> string + sat_result) \<Rightarrow> clock \<Rightarrow> seg_request \<Rightarrow> proc_outcome \<Rightarrow>
   store \<times> alert list \<Rightarrow> seg_response \<times> store \<times> alert list" where
  "processGeographicArea parse ck req out sa =
     (case sa of (st, alerts) \<Rightarrow>
      (case sq_bounds req of
        None \<Rightarrow> (SegRejected InvalidFormat, st, alerts)
      | Some bs \<Rightarrow>
          if length bs \<noteq> 4 then (SegRejected InvalidFormat, st, alerts)
          else
            let minLat' = bs ! 0; minLng' = bs ! 1; maxLat' = bs ! 2; maxLng' = bs ! 3
            in if minLat' \<ge> maxLat' \<or> minLng' \<ge> maxLng' then (SegRejected InvalidBounds, st, alerts)
               else
                 let areaKm2 = calculateAreaSize minLat' minLng' maxLat' maxLng'
                 in if areaKm2 > 1000 then (SegRejected AreaTooLarge, st, alerts)
                    else
                      (case processAreaWithSatelliteData parse out of
                         Inl m \<Rightarrow> (SegFailed m, st, alerts)
                       | Inr result \<Rightarrow>
                           (case sr_detections result of
                              None \<Rightarrow> (SegFailed type_error_message, st, alerts)
                            | Some ds \<Rightarrow>
                                let segmentationResult =
                                      \<lparr> userId = sq_userId req, processingId = None,
                                        modelUsed = ''Satellite_Geographic_Analysis_v3.0'',
                                        inputType = ''geographic_bounds'', coord_bounds = None,
                                        coord_buildings = [],
                                        zoneName = str_or (sq_zoneName req) (''Area_'' @ stamp ck),
                                        confidence = Some (sr_confidence result),
                                        status = Completed,
                                        environmentalRisk =
                                          calculateEnvironmentalRisk (sr_detections result),
                                        detections = ds, summary = None,
                                        meta_analysisType = [], meta_error = None,
                                        meta_batchId = None, meta_chunkIndex = None,
                                        meta_totalBuildings = None \<rparr>
                                in if valid_record segmentationResult then
                                     let (alerts', alertsCreated) =
                                           createAlertsFromDetections (sq_userId req) (sq_zoneName req)
                                             ds (sq_alertThreshold req) alerts
                                     in (SegOk (length st) areaKm2 alertsCreated,
                                         st @ [segmentationResult], alerts')
                                   else (SegFailed validation_message, st, alerts)))))"

section \<open>Batch submission\<close>

text \<open>Rendering of a non-negative integer by a template literal.\<close>

definition digit :: "nat \<Rightarrow> char" where
  "digit n = ''0123456789'' ! n"

fun show_nat :: "nat \<Rightarrow> string" where
  "show_nat n = (if n < 10 then [digit n] else show_nat (n div 10) @ [digit (n mod 10)])"

declare show_nat.simps [simp del]

text \<open>Rendering of the exit code: \<^verbatim>\<open>null\<close> when the process was killed by a signal.\<close>

definition show_code :: "int option \<Rightarrow> string" where
  "show_code code =
     (case code of
        None \<Rightarrow> ''null''
      | Some c \<Rightarrow> if c < 0 then ''-'' @ show_nat (nat (- c)) else show_nat (nat c))"

record 'a batch_request =
  bq_buildings :: "'a building_ref_scheme list option"
  bq_userId :: "string option"

text \<open>An entry of \<^verbatim>\<open>results\<close> in the 202 answer of the batch endpoint.\<close>

record chunk_result =
  cr_processingId :: string
  cr_buildingCount :: nat
  cr_status :: job_status

record batch_response =
  br_batchId :: string
  br_totalBuildings :: nat
  br_chunks :: nat
  br_results :: "chunk_result list"

definition chunkSize :: nat where
  "chunkSize = 50"

text \<open>\<^verbatim>\<open>buildings.slice(i, i + chunkSize)\<close>\<close>

definition slice :: "'a list \<Rightarrow> nat \<Rightarrow> nat \<Rightarrow> 'a list" where
  "slice xs i j = take (j - i) (drop i xs)"

text \<open>The document saved by one iteration of the loop of \<^verbatim>\<open>batchHeightEstimation\<close>. It
  has its \<^verbatim>\<open>processingId\<close> and the \<^verbatim>\<open>confidence\<close> 80, so the validation accepts it
  (\<open>chunk_record_valid\<close>).\<close>

definition chunk_record :: "string \<Rightarrow> string \<Rightarrow> 'a building_ref_scheme list \<Rightarrow> nat \<Rightarrow> job_record" where
  "chunk_record uid batchId buildings i =
     (let chunk = slice buildings i (i + chunkSize);
          processingId' = batchId @ ''_chunk_'' @ show_nat (i div chunkSize)
      in \<lparr> userId = uid, processingId = Some processingId',
           modelUsed = ''batch_height_estimation_v1'',
           inputType = ''building_coordinates'', coord_bounds = None,
           coord_buildings = map building_ref.truncate chunk,
           zoneName = ''Batch Height Analysis '' @ show_nat (i div chunkSize + 1),
           confidence = Some 80, status = Processing, environmentalRisk = ''Low'',
           detections = [], summary = None,
           meta_analysisType = ''batch_building_height'', meta_error = None,
           meta_batchId = Some batchId, meta_chunkIndex = Some (i div chunkSize),
           meta_totalBuildings = Some (length chunk) \<rparr>)"

definition chunk_answer :: "string \<Rightarrow> 'a building_ref_scheme list \<Rightarrow> nat \<Rightarrow> chunk_result" where
  "chunk_answer batchId buildings i =
     \<lparr> cr_processingId = batchId @ ''_chunk_'' @ show_nat (i div chunkSize),
       cr_buildingCount = length (slice buildings i (i + chunkSize)),
       cr_status = Queued \<rparr>"

text \<open>\<^verbatim>\<open>for (let i = 0; i < buildings.length; i += chunkSize)\<close>\<close>

function batch_loop ::
  "string \<Rightarrow> string \<Rightarrow> 'a building_ref_scheme list \<Rightarrow> nat \<Rightarrow> store \<times> chunk_result list \<Rightarrow>
   store \<times> chunk_result list" where
  "batch_loop uid batchId buildings i (st, results) =
     (if i < length buildings
      then batch_loop uid batchId buildings (i + chunkSize)
             (st @ [chunk_record uid batchId buildings i],
              results @ [chunk_answer batchId buildings i])
      else (st, results))"
  by pat_completeness auto
termination
  by (relation "measure (\<lambda>(uid, batchId, buildings, i, acc). length buildings - i)")
     (auto simp: chunkSize_def)

declare batch_loop.simps [simp del]

text \<open>\<^verbatim>\<open>batchHeightEstimation\<close>. The process started by \<^verbatim>\<open>processBatchHeights\<close> has a close
  handler that only removes the parameter file, so it leaves no trace in the store.\<close>

definition batchHeightEstimation ::
  "clock \<Rightarrow> 'a batch_request \<Rightarrow> store \<Rightarrow> (reject + batch_response) \<times> store" where
  "batchHeightEstimation ck req st =
     (case bq_buildings req of
        None \<Rightarrow> (Inl EmptyBatch, st)
      | Some buildings \<Rightarrow>
          if length buildings = 0 then (Inl EmptyBatch, st)
          else if length buildings > 1000 then (Inl BatchTooLarge, st)
          else
            let batchId = mk_pid ''batch_height'' ck;
                (st', results) =
                   batch_loop (str_or (bq_userId req) ANONYMOUS_USER_ID) batchId buildings 0 (st, [])
            in (Inr \<lparr> br_batchId = batchId, br_totalBuildings = length buildings,
                      br_chunks = length results, br_results = results \<rparr>, st'))"

section \<open>Close handlers of the external process\<close>

text \<open>What the executor printed, once \<^verbatim>\<open>JSON.parse\<close> has accepted it: the fields the handlers
  read. A building without \<^verbatim>\<open>coordinates\<close> makes the handler throw a \<^verbatim>\<open>TypeError\<close>.\<close>

record building_out =
  bo_confidence :: real
  bo_coordinates :: "(real \<times> real) option"
  bo_estimatedHeight :: real
  bo_category :: string

record height_results =
  hr_buildings :: "building_out list option"
  hr_summary :: "jobject option"

record analysis_results =
  ar_detections :: "detection list option"
  ar_summary :: "jobject option"

text \<open>\<^verbatim>\<open>SegmentationResult.findOne({ processingId })\<close>: the first matching document and its
  position.\<close>

fun find_from :: "nat \<Rightarrow> string \<Rightarrow> store \<Rightarrow> (nat \<times> job_record) option" where
  "find_from i pid [] = None"
| "find_from i pid (r # rs) =
     (if processingId r = Some pid then Some (i, r) else find_from (Suc i) pid rs)"

definition findOne :: "string \<Rightarrow> store \<Rightarrow> (nat \<times> job_record) option" where
  "findOne pid st = find_from 0 pid st"

text \<open>\<^verbatim>\<open>doc.save()\<close> of a document that is already in the collection; \<open>None\<close> when
  the validation rejects it and \<^verbatim>\<open>save()\<close> throws.\<close>

definition try_save :: "nat \<Rightarrow> job_record \<Rightarrow> store \<Rightarrow> store option" where
  "try_save i r st = (if valid_record r then Some (st[i := r]) else None)"

text \<open>The callback of \<^verbatim>\<open>(results.buildings || []).map(...)\<close>; the pair is (lng, lat).\<close>

definition detection_of_building :: "building_out \<Rightarrow> string + detection" where
  "detection_of_building b =
     (case bo_coordinates b of
        None \<Rightarrow> Inl type_error_message
      | Some (lng', lat') \<Rightarrow>
          Inr \<lparr> det_class = ''urban_expansion'',
                det_confidence = bo_confidence b * 100,
                det_bbox = [lng' - 0.0001, lat' - 0.0001, 0.0002, 0.0002],
                det_center = Some [lng', lat'],
                det_area = Some ((bo_estimatedHeight b / 10) ^ 2),
                det_severity = Some (if bo_category b = ''skyscraper'' then High
                                     else if bo_category b = ''high'' then Medium else Low) \<rparr>)"

text \<open>\<^verbatim>\<open>Array.prototype.map\<close> with a callback that may throw: the first exception ends it.\<close>

fun map_throw :: "('a \<Rightarrow> string + 'b) \<Rightarrow> 'a list \<Rightarrow> string + 'b list" where
  "map_throw f [] = Inr []"
| "map_throw f (x # xs) =
     (case f x of
        Inl e \<Rightarrow> Inl e
      | Inr y \<Rightarrow> (case map_throw f xs of Inl e \<Rightarrow> Inl e | Inr ys \<Rightarrow> Inr (y # ys)))"

definition height_summary :: "jobject option \<Rightarrow> jobject" where
  "height_summary s =
     [(''totalBuildings'', field_or s ''totalBuildings'' (JNum 0)),
      (''averageHeight'', field_or s ''averageHeight'' (JNum 0)),
      (''maxHeight'', field_or s ''maxHeight'' (JNum 0)),
      (''minHeight'', field_or s ''minHeight'' (JNum 0)),
      (''heightDistribution'', field_or s ''heightDistribution'' (JObj [])),
      (''confidenceScore'', field_or s ''confidenceScore'' (JNum 0)),
      (''heightStdDev'', field_or s ''heightStdDev'' (JNum 0)),
      (''averageConfidence'', field_or s ''averageConfidence'' (JNum 0))]"

text \<open>The close handler of \<^verbatim>\<open>estimateBuildingHeights\<close> (lines 128--230). \<open>parse\<close> stands for
  \<^verbatim>\<open>JSON.parse\<close>; \<open>Inl\<close> carries the message of the \<^verbatim>\<open>SyntaxError\<close>.

  \<open>height_attempt\<close> is the body of the outer \<^verbatim>\<open>try\<close> after the document has been found;
  \<open>None\<close> means that a \<^verbatim>\<open>save()\<close> has thrown out of it. When the save of the completed
  document is rejected, the inner \<^verbatim>\<open>catch\<close> marks the same in-memory document failed and
  saves it again, with the detections still on it. The outer \<^verbatim>\<open>catch\<close> reads the
  document again and saves it as failed with the message of the error.\<close>

definition height_attempt ::
  "(string \<Rightarrow> string + height_results) \<Rightarrow> nat \<Rightarrow> job_record \<Rightarrow> int option \<Rightarrow> string \<Rightarrow> string \<Rightarrow>
   store \<Rightarrow> store option" where
  "height_attempt parse i savedResult code pythonOutput pythonError st =
     (if code = Some 0 \<and> pythonOutput \<noteq> [] then
        (case parse pythonOutput of
           Inl m \<Rightarrow>
             try_save i (savedResult\<lparr> status := Failed,
                                      meta_error := Some (''JSON parsing error: '' @ m) \<rparr>) st
         | Inr results \<Rightarrow>
             (case map_throw detection_of_building
                     (case hr_buildings results of None \<Rightarrow> [] | Some bs \<Rightarrow> bs) of
                Inl m \<Rightarrow>
                  try_save i (savedResult\<lparr> status := Failed,
                                           meta_error := Some (''JSON parsing error: '' @ m) \<rparr>) st
              | Inr ds \<Rightarrow>
                  let completed = savedResult\<lparr> status := Completed, detections := ds,
                                     summary := Some (height_summary (hr_summary results)) \<rparr>
                  in (case try_save i completed st of
                        Some st' \<Rightarrow> Some st'
                      | None \<Rightarrow>
                          try_save i (completed\<lparr> status := Failed,
                                        meta_error := Some (''JSON parsing error: ''
                                                            @ validation_message) \<rparr>) st)))
      else
        try_save i (savedResult\<lparr> status := Failed,
                                 meta_error := Some (if pythonError \<noteq> [] then pythonError
                                                     else ''Process failed with code ''
                                                          @ show_code code) \<rparr>) st)"

definition height_on_close ::
  "(string \<Rightarrow> string + height_results) \<Rightarrow> string \<Rightarrow> int option \<Rightarrow> string \<Rightarrow> string \<Rightarrow> store \<Rightarrow> store" where
  "height_on_close parse pid code pythonOutput pythonError st =
     (case findOne pid st of
        None \<Rightarrow> st
      | Some (i, savedResult) \<Rightarrow>
          (case height_attempt parse i savedResult code pythonOutput pythonError st of
             Some st' \<Rightarrow> st'
           | None \<Rightarrow>
               (case findOne pid st of
                  None \<Rightarrow> st
                | Some (i', again) \<Rightarrow>
                    (case try_save i' (again\<lparr> status := Failed,
                                               meta_error := Some validation_message \<rparr>) st of
                       Some st' \<Rightarrow> st'
                     | None \<Rightarrow> st))))"

definition analysis_summary :: "kind \<Rightarrow> jobject option \<Rightarrow> jobject" where
  "analysis_summary k s =
     (case k of
        Deforestation \<Rightarrow>
          [(''totalForestLoss'', field_or s ''totalForestLoss'' (JNum 0)),
           (''forestLossPercentage'', field_or s ''forestLossPercentage'' (JNum 0)),
           (''affectedAreas'', field_or s ''affectedAreas'' (JNum 0)),
           (''severityLevel'', field_or s ''severityLevel'' (JStr ''low'')),
           (''confidenceScore'', field_or s ''confidenceScore'' (JNum 0))]
      | Mining \<Rightarrow>
          [(''totalMiningSites'', field_or s ''totalMiningSites'' (JNum 0)),
           (''totalAffectedArea'', field_or s ''totalAffectedArea'' (JNum 0)),
           (''miningTypes'', field_or s ''miningTypes'' (JObj [])),
           (''environmentalImpact'', field_or s ''environmentalImpact'' (JStr ''low'')),
           (''confidenceScore'', field_or s ''confidenceScore'' (JNum 0))]
      | Fire \<Rightarrow>
          [(''activeFires'', field_or s ''activeFires'' (JNum 0)),
           (''burnedArea'', field_or s ''burnedArea'' (JNum 0)),
           (''fireIntensity'', field_or s ''fireIntensity'' (JStr ''low'')),
           (''riskLevel'', field_or s ''riskLevel'' (JStr ''low'')),
           (''confidenceScore'', field_or s ''confidenceScore'' (JNum 0)),
           (''weatherConditions'', field_or s ''weatherConditions'' (JObj []))]
      | BuildingHeight \<Rightarrow> height_summary s)"

text \<open>The generic message of the \<^verbatim>\<open>else\<close> branch when standard error is empty.\<close>

definition generic_failure :: "kind \<Rightarrow> int option \<Rightarrow> string" where
  "generic_failure k code =
     (case k of
        BuildingHeight \<Rightarrow> ''Process failed with code '' @ show_code code
      | Deforestation \<Rightarrow> ''Processing failed''
      | Mining \<Rightarrow> ''Mining detection failed''
      | Fire \<Rightarrow> ''Fire detection failed'')"

text \<open>The close handlers of \<^verbatim>\<open>analyzeDeforestation\<close>, \<^verbatim>\<open>detectMiningActivities\<close> and
  \<^verbatim>\<open>detectForestFires\<close>. They update the document \<^verbatim>\<open>segmentationResult\<close> of the enclosing
  request and save it. An exception of \<^verbatim>\<open>JSON.parse\<close> or of \<^verbatim>\<open>save()\<close> reaches the
  outer \<^verbatim>\<open>catch\<close>, which logs it and saves nothing. The alerts written after a successful save go to another
  collection.\<close>

definition analysis_on_close ::
  "(string \<Rightarrow> string + analysis_results) \<Rightarrow> job \<Rightarrow> int option \<Rightarrow> string \<Rightarrow> string \<Rightarrow> store \<Rightarrow> store" where
  "analysis_on_close parse j code pythonOutput pythonError st =
     (let segmentationResult = job_doc j
      in if code = Some 0 \<and> pythonOutput \<noteq> [] then
           (case parse pythonOutput of
              Inl m \<Rightarrow> st
            | Inr results \<Rightarrow>
                (case try_save (job_doc_id j)
                        (segmentationResult\<lparr> status := Completed,
                            detections := (case ar_detections results of None \<Rightarrow> [] | Some ds \<Rightarrow> ds),
                            summary := Some (analysis_summary (job_kind j) (ar_summary results)) \<rparr>)
                        st of
                   Some st' \<Rightarrow> st'
                 | None \<Rightarrow> st))
         else
           (case try_save (job_doc_id j)
                   (segmentationResult\<lparr> status := Failed,
                       meta_error := Some (if pythonError \<noteq> [] then pythonError
                                           else generic_failure (job_kind j) code) \<rparr>) st of
              Some st' \<Rightarrow> st'
            | None \<Rightarrow> st))"

definition on_close ::
  "(string \<Rightarrow> string + height_results) \<Rightarrow> (string \<Rightarrow> string + analysis_results) \<Rightarrow>
   job \<Rightarrow> int option \<Rightarrow> string \<Rightarrow> string \<Rightarrow> store \<Rightarrow> store" where
  "on_close parse_h parse_a j code out err st =
     (if job_kind j = BuildingHeight then height_on_close parse_h (job_pid j) code out err st
      else analysis_on_close parse_a j code out err st)"

section \<open>Polling\<close>

record poll_payload =
  pp_processingId :: string
  pp_status :: job_status
  pp_summary :: "jobject option"
  pp_buildings :: "detection list"
  pp_error :: "string option"

datatype poll_response = NotFound | Found poll_payload

text \<open>\<^verbatim>\<open>getHeightResults\<close>; the store is returned as the handler leaves it.\<close>

definition getHeightResults :: "string \<Rightarrow> store \<Rightarrow> poll_response \<times> store" where
  "getHeightResults pid st =
     (case findOne pid st of
        None \<Rightarrow> (NotFound, st)
      | Some (i, result) \<Rightarrow>
          (Found \<lparr> pp_processingId = pid, pp_status = status result,
                   pp_summary = summary result, pp_buildings = detections result,
                   pp_error = meta_error result \<rparr>, st))"

section \<open>Satellite imagery fetch\<close>

text \<open>
  \<^verbatim>\<open>fetchSatelliteImagery\<close> keeps no document in the collection: its close handler writes
  a result file named after the processing id, which \<^verbatim>\<open>getImageryResults\<close> reads. The
  files are a map from processing ids to their contents. \<open>parse\<close> stands for
  \<^verbatim>\<open>JSON.parse\<close>.
\<close>

record imagery_result =
  ir_status :: job_status
  ir_data :: "jv option"
  ir_error :: "string option"

type_synonym result_files = "string \<rightharpoonup> imagery_result"

definition fetchSatelliteImagery :: "clock \<Rightarrow> request \<Rightarrow> reject + string" where
  "fetchSatelliteImagery ck req =
     (case rq_coordinates req of
        None \<Rightarrow> Inl MissingCoordinates
      | Some c \<Rightarrow>
          (case c_bounds c of
             None \<Rightarrow> Inl MissingCoordinates
           | Some b \<Rightarrow>
               if areaSize b > 10000 then Inl AreaTooLarge
               else Inr (mk_pid ''imagery'' ck)))"

text \<open>The close handler of \<^verbatim>\<open>fetchSatelliteImagery\<close> (lines 73--111): the status depends
  on the exit code alone; an exception of \<^verbatim>\<open>JSON.parse\<close> is caught and written as a
  failed result.\<close>

definition imagery_on_close ::
  "(string \<Rightarrow> string + jv) \<Rightarrow> string \<Rightarrow> int option \<Rightarrow> string \<Rightarrow> string \<Rightarrow> result_files \<Rightarrow> result_files" where
  "imagery_on_close parse pid code pythonOutput pythonError files =
     (case (if code = Some 0 \<and> pythonOutput \<noteq> []
            then map_sum id Some (parse pythonOutput) else Inr None) of
        Inl m \<Rightarrow>
          files(pid \<mapsto> \<lparr> ir_status = Failed, ir_data = None, ir_error = Some m \<rparr>)
      | Inr data \<Rightarrow>
          files(pid \<mapsto> \<lparr> ir_status = (if code = Some 0 then Completed else Failed),
                           ir_data = data,
                           ir_error = (if code \<noteq> Some 0 then Some pythonError else None) \<rparr>))"

text \<open>\<^verbatim>\<open>getImageryResults\<close>: status, results and error of the answer. A missing file is
  answered as still processing.\<close>

definition getImageryResults :: "string \<Rightarrow> result_files \<Rightarrow> job_status \<times> jv option \<times> string option" where
  "getImageryResults pid files =
     (case files pid of
        None \<Rightarrow> (Processing, None, None)
      | Some results \<Rightarrow>
          (ir_status results,
           (if ir_status results = Completed then ir_data results else None),
           (if ir_status results = Failed \<and> ir_error results \<noteq> Some []
            then ir_error results else None)))"

section \<open>The orchestrator as a transition system\<close>

text \<open>
  The state of the orchestrating process: the two collections and the external processes
  that have not closed yet. An event is a request reaching a controller, or the close
  event of a running process (each process closes once). A submission is only considered
  when the generated processing id is not in the collection yet, which is what the
  timestamp and random suffix are there for.

  \<open>SpawnError\<close> is the \<^verbatim>\<open>error\<close> event of a child process that could not be started
  (the executable is missing, say). The height, deforestation, mining and fire controllers
  register listeners for \<^verbatim>\<open>data\<close> on the two streams and for \<^verbatim>\<open>close\<close> only; no
  listener receives \<^verbatim>\<open>error\<close>, and no \<^verbatim>\<open>close\<close> follows it, so no code of the
  controller runs. \<^verbatim>\<open>processAreaWithSatelliteData\<close> does register one
  (\<open>StartError\<close> above).
\<close>

record sys =
  sys_store :: store
  sys_alerts :: "alert list"
  sys_pending :: "job list"

record parsers =
  parse_height :: "string \<Rightarrow> string + height_results"
  parse_analysis :: "string \<Rightarrow> string + analysis_results"
  parse_satellite :: "string \<Rightarrow> string + sat_result"

datatype event =
    Submit kind clock request
  | SubmitBatch clock "unit batch_request"
  | Segment clock seg_request proc_outcome
  | Close nat "int option" string string
  | SpawnError nat string
  | Poll string

definition submit :: "kind \<Rightarrow> clock \<Rightarrow> request \<Rightarrow> store \<Rightarrow> (reject + job) \<times> store" where
  "submit k =
     (case k of
        BuildingHeight \<Rightarrow> estimateBuildingHeights
      | Deforestation \<Rightarrow> analyzeDeforestation
      | Mining \<Rightarrow> detectMiningActivities
      | Fire \<Rightarrow> detectForestFires)"

definition init :: sys where
  "init = \<lparr> sys_store = [], sys_alerts = [], sys_pending = [] \<rparr>"

definition apply_event :: "parsers \<Rightarrow> event \<Rightarrow> sys \<Rightarrow> sys option" where
  "apply_event P e s =
     (case e of
        Submit k ck req \<Rightarrow>
          (case submit k ck req (sys_store s) of
             (Inl r, st') \<Rightarrow> Some (s\<lparr> sys_store := st' \<rparr>)
           | (Inr j, st') \<Rightarrow>
               if findOne (job_pid j) (sys_store s) = None
               then Some (s\<lparr> sys_store := st', sys_pending := sys_pending s @ [j] \<rparr>)
               else None)
      | SubmitBatch ck req \<Rightarrow>
          Some (s\<lparr> sys_store := snd (batchHeightEstimation ck req (sys_store s)) \<rparr>)
      | Segment ck req out \<Rightarrow>
          (case processGeographicArea (parse_satellite P) ck req out (sys_store s, sys_alerts s) of
             (resp, st', alerts') \<Rightarrow> Some (s\<lparr> sys_store := st', sys_alerts := alerts' \<rparr>))
      | Close n code out err \<Rightarrow>
          if n < length (sys_pending s)
          then Some (s\<lparr> sys_store :=
                          on_close (parse_height P) (parse_analysis P) (sys_pending s ! n)
                            code out err (sys_store s),
                        sys_pending := take n (sys_pending s) @ drop (Suc n) (sys_pending s) \<rparr>)
          else None
      | SpawnError n m \<Rightarrow>
          if n < length (sys_pending s)
          then Some (s\<lparr> sys_pending := take n (sys_pending s) @ drop (Suc n) (sys_pending s) \<rparr>)
          else None
      | Poll pid \<Rightarrow>
          Some (s\<lparr> sys_store := snd (getHeightResults pid (sys_store s)) \<rparr>))"

fun run :: "parsers \<Rightarrow> event list \<Rightarrow> sys \<Rightarrow> sys option" where
  "run P [] s = Some s"
| "run P (e # es) s = (case apply_event P e s of None \<Rightarrow> None | Some s' \<Rightarrow> run P es s')"

definition terminal :: "job_status \<Rightarrow> bool" where
  "terminal x = (x = Completed \<or> x = Failed)"

text \<open>A document carries a result (detections or a summary) only when completed, an error
  only when failed.\<close>

definition populated_ok :: "job_record \<Rightarrow> bool" where
  "populated_ok r =
     (((detections r \<noteq> [] \<or> summary r \<noteq> None) \<longrightarrow> status r = Completed) \<and>
      (meta_error r \<noteq> None \<longrightarrow> status r = Failed))"

text \<open>A running process belongs to a document that is still in processing, and a lookup of
  its processing id returns that document.\<close>

definition pending_ok :: "store \<Rightarrow> job \<Rightarrow> bool" where
  "pending_ok st j =
     (status (job_doc j) = Processing \<and>
      findOne (job_pid j) st = Some (job_doc_id j, job_doc j) \<and>
      job_doc_id j < length st \<and> st ! job_doc_id j = job_doc j)"

definition inv :: "sys \<Rightarrow> bool" where
  "inv s =
     ((\<forall>r \<in> set (sys_store s). populated_ok r) \<and>
      (\<forall>j \<in> set (sys_pending s). pending_ok (sys_store s) j) \<and>
      distinct (map job_doc_id (sys_pending s)))"

text \<open>From one store to a later one: no document is lost, a document in a terminal state
  is as it was, and a lookup that returned a terminal document returns it again.\<close>

definition stable :: "store \<Rightarrow> store \<Rightarrow> bool" where
  "stable st st' =
     (length st \<le> length st' \<and>
      (\<forall>i < length st. terminal (status (st ! i)) \<longrightarrow> st' ! i = st ! i) \<and>
      (\<forall>pid i r. findOne pid st = Some (i, r) \<and> terminal (status r) \<longrightarrow>
                  findOne pid st' = Some (i, r)))"

text \<open>Concrete inputs for the examples.\<close>

definition ck0 :: clock where
  "ck0 = \<lparr> stamp = ''1700000000000'', rnd = ''k3j9x2m1q'', today = ''2024-01-01'' \<rparr>"

definition P0 :: parsers where
  "P0 = \<lparr> parse_height = (\<lambda>s. if s = ''{}'' then Inr \<lparr> hr_buildings = None, hr_summary = None \<rparr>
                                else Inl ''Unexpected token''),
          parse_analysis = (\<lambda>s. if s = ''{}'' then Inr \<lparr> ar_detections = None, ar_summary = None \<rparr>
                                  else Inl ''Unexpected token''),
          parse_satellite = (\<lambda>s. if s = ''{}''
                                   then Inr \<lparr> sr_detections = Some [], sr_confidence = 0 \<rparr>
                                   else Inl ''Unexpected token'') \<rparr>"

definition bounds_req :: "bounds \<Rightarrow> request" where
  "bounds_req b =
     \<lparr> rq_coordinates = Some \<lparr> c_bounds = Some b, c_lat = None, c_lng = None, c_radius = None \<rparr>,
       rq_userId = None, rq_zoneName = None \<rparr>"

definition small_box :: bounds where
  "small_box = \<lparr> minLat = - 0.005, minLng = 0, maxLat = 0.005, maxLng = 0.01 \<rparr>"

definition inverted_box :: bounds where
  "inverted_box = \<lparr> minLat = 1, minLng = 0, maxLat = 0, maxLng = 1 \<rparr>"

definition near_ceiling_box :: bounds where
  "near_ceiling_box = \<lparr> minLat = - 0.045, minLng = 0, maxLat = 0.045, maxLng = 0.09 \<rparr>"

definition seg_req :: "real list \<Rightarrow> seg_request" where
  "seg_req bs = \<lparr> sq_bounds = Some bs, sq_userId = ''65f000000000000000000001'',
                  sq_zoneName = None, sq_alertThreshold = None \<rparr>"

definition seg_req_zone :: "real list \<Rightarrow> seg_request" where
  "seg_req_zone bs = \<lparr> sq_bounds = Some bs, sq_userId = ''65f000000000000000000001'',
                       sq_zoneName = Some ''Amazon North'', sq_alertThreshold = Some 70 \<rparr>"

definition plain_detection :: "real \<Rightarrow> detection" where
  "plain_detection c =
     \<lparr> det_class = ''mining'', det_confidence = c, det_bbox = [0, 0, 1, 1],
       det_center = None, det_area = None, det_severity = None \<rparr>"

definition sample_building :: building_ref where
  "sample_building = \<lparr> lat = 27.7172, lng = 85.324, ident = ''b1'' \<rparr>"

definition sample_batch :: "nat \<Rightarrow> unit batch_request" where
  "sample_batch n = \<lparr> bq_buildings = Some (replicate n sample_building), bq_userId = None \<rparr>"

definition pid_height0 :: string where
  "pid_height0 = ''height_1700000000000_k3j9x2m1q''"

text \<open>A height job that completes.\<close>

definition trace_completed :: "event list" where
  "trace_completed =
     [Submit BuildingHeight ck0 (bounds_req small_box), Close 0 (Some 0) ''{}'' []]"

definition ck1 :: clock where
  "ck1 = \<lparr> stamp = ''1700000000500'', rnd = ''p0q8r7s6t'', today = ''2024-01-01'' \<rparr>"

text \<open>Afterwards: a poll, and a second height job whose process exits with code 1.\<close>

definition trace_more :: "event list" where
  "trace_more =
     [Poll pid_height0, Submit BuildingHeight ck1 (bounds_req small_box),
      Close 0 (Some 1) [] ''boom'']"

text \<open>An analysis output with two detections, of confidence 75 and 40.\<close>

definition parse_two :: "string \<Rightarrow> string + sat_result" where
  "parse_two s =
     Inr \<lparr> sr_detections = Some [plain_detection 75, plain_detection 40], sr_confidence = 80 \<rparr>"

text \<open>A height output with one building of confidence 0.87.\<close>

definition P87 :: parsers where
  "P87 = P0\<lparr> parse_height :=
             (\<lambda>s. Inr \<lparr> hr_buildings =
                          Some [\<lparr> bo_confidence = 0.87, bo_coordinates = Some (- 64.25, - 3.25),
                                   bo_estimatedHeight = 12.5, bo_category = ''low'' \<rparr>],
                        hr_summary = None \<rparr>) \<rparr>"

text \<open>A height job whose process cannot be started.\<close>

definition trace_spawn_error :: "event list" where
  "trace_spawn_error =
     [Submit BuildingHeight ck0 (bounds_req small_box), SpawnError 0 ''spawn python ENOENT'']"

definition parse_none :: "string \<Rightarrow> string + jv" where
  "parse_none s = Inl ''Unexpected end of JSON input''"

text \<open>One job of the given kind on an empty store, and the close event of its process.\<close>

definition trace_close :: "kind \<Rightarrow> int option \<Rightarrow> string \<Rightarrow> string \<Rightarrow> event list" where
  "trace_close k code out err = [Submit k ck0 (bounds_req small_box), Close 0 code out err]"

section \<open>Admission: bounds and area ceilings\<close>

lemma new_record_valid:
  "valid_record (new_record uid pid model conf b zone atype) =
     (case conf of None \<Rightarrow> False | Some c \<Rightarrow> 0 \<le> c \<and> c \<le> 100)"
  by (simp add: valid_record_def new_record_def)

lemma height_record_valid:
  "valid_record (new_record uid pid model (Some 85) b zone atype)"
  by (simp add: new_record_valid)

lemma bounded_admission_area:
  assumes "rq_coordinates req = Some c" "c_bounds c = Some b"
      and "minLat b < maxLat b" "minLng b < maxLng b"
  shows "bounded_admission k limit prefix model zone atype ck req st =
           (if areaSize b > limit then (Inl AreaTooLarge, st) else (Inl ServerError, st))"
  using assms by (simp add: bounded_admission_def new_record_valid Let_def)

lemma bounded_admission_inverted:
  assumes "rq_coordinates req = Some c" "c_bounds c = Some b"
      and "minLat b \<ge> maxLat b \<or> minLng b \<ge> maxLng b"
  shows "bounded_admission k limit prefix model zone atype ck req st = (Inl InvalidBounds, st)"
  using assms by (auto simp add: bounded_admission_def Let_def)

lemma bounded_admission_never_saves:
  "snd (bounded_admission k limit prefix model zone atype ck req st) = st \<and>
   isl (fst (bounded_admission k limit prefix model zone atype ck req st))"
  by (simp add: bounded_admission_def new_record_valid Let_def split: option.splits)

lemma height_admission_area:
  assumes "rq_coordinates req = Some c" "c_bounds c = Some b"
  shows "estimateBuildingHeights ck req st =
           (if areaSize b > 100 then (Inl AreaTooLarge, st)
            else start_job BuildingHeight (mk_pid ''height'' ck)
                   (new_record (str_or (rq_userId req) ANONYMOUS_USER_ID) (mk_pid ''height'' ck)
                      ''building_height_estimation_v1'' (Some 85) b
                      (''Height Analysis '' @ today ck) ''building_height'') st)"
  using assms by (simp add: estimateBuildingHeights_def height_bounds_def Let_def)

lemma start_job_not_rejected: "fst (start_job k pid r st) \<noteq> Inl e"
  by (simp add: start_job_def)

lemma start_job_creates:
  "\<exists>j. start_job k pid (new_record uid pid model conf b zone atype) st = (Inr j, st @ [job_doc j]) \<and>
       status (job_doc j) = Processing \<and> coord_bounds (job_doc j) = Some b"
  by (simp add: start_job_def new_record_def)

lemma bounded_admission_decides:
  assumes "rq_coordinates req = Some c" "c_bounds c = Some b"
      and "minLat b < maxLat b" "minLng b < maxLng b"
  shows "fst (bounded_admission k limit prefix model zone atype ck req st) = Inl AreaTooLarge
            \<longleftrightarrow> areaSize b > limit"
  by (simp add: bounded_admission_area [OF assms])

lemma height_admission_decides:
  assumes "rq_coordinates req = Some c" "c_bounds c = Some b"
  shows "(fst (estimateBuildingHeights ck req st) = Inl AreaTooLarge \<longleftrightarrow> areaSize b > 100) \<and>
         (areaSize b \<le> 100 \<longrightarrow>
            (\<exists>j. estimateBuildingHeights ck req st = (Inr j, st @ [job_doc j]) \<and>
                 status (job_doc j) = Processing \<and> coord_bounds (job_doc j) = Some b))"
  using start_job_creates [of BuildingHeight "mk_pid ''height'' ck" _ _ _ b _ _ st]
  by (simp add: height_admission_area [OF assms] start_job_not_rejected)

lemma segment_admission_area:
  assumes "sq_bounds sreq = Some [a, n, b, m]" "a < b" "n < m"
  shows "fst (processGeographicArea parse ck sreq out (st, al)) = SegRejected AreaTooLarge
           \<longleftrightarrow> calculateAreaSize a n b m > 1000"
  using assms
  by (simp add: processGeographicArea_def Let_def split: sum.splits prod.splits option.splits)

lemma segment_never_saves:
  "snd (processGeographicArea parse ck sreq out (st, al)) = (st, al)"
  by (simp add: processGeographicArea_def valid_record_def Let_def
        split: sum.splits prod.splits option.splits)

lemma segment_failure_no_record:
  assumes "sq_bounds sreq = Some [a, n, b, m]" "a < b" "n < m"
      and "calculateAreaSize a n b m \<le> 1000" and "code \<noteq> Some 0"
  shows "processGeographicArea parse ck sreq (Closed code so se) (st, al)
           = (SegFailed (''Satellite processing failed: '' @ se), st, al)"
  using assms
  by (simp add: processGeographicArea_def processAreaWithSatelliteData_def Let_def)

text \<open>
  Claim C2. Submitting inverted bounds to the building-height endpoint is not rejected:
  \<^verbatim>\<open>estimateBuildingHeights\<close> has no comparison of the minima with the maxima, the
  negative area passes the ceiling test, and a document in processing state is created.
  The deforestation endpoint rejects the same bounds, as do mining and fire
  (\<open>bounded_admission_inverted\<close>).
\<close>

theorem height_admits_inverted_bounds:
  "maxLat inverted_box \<le> minLat inverted_box \<and>
   fst (analyzeDeforestation ck0 (bounds_req inverted_box) []) = Inl InvalidBounds \<and>
   snd (analyzeDeforestation ck0 (bounds_req inverted_box) []) = [] \<and>
   \<not> isl (fst (estimateBuildingHeights ck0 (bounds_req inverted_box) [])) \<and>
   map status (snd (estimateBuildingHeights ck0 (bounds_req inverted_box) [])) = [Processing] \<and>
   map coord_bounds (snd (estimateBuildingHeights ck0 (bounds_req inverted_box) []))
     = [Some inverted_box]"
  by (simp add: inverted_box_def bounds_req_def analyzeDeforestation_def bounded_admission_def
        estimateBuildingHeights_def height_bounds_def areaSize_def start_job_def new_record_def
        Let_def)

text \<open>
  Claim C3, as amended. With well-ordered bounds, each admission path answers
  \<^verbatim>\<open>AreaTooLarge\<close> exactly when the area it computes exceeds its ceiling (100, 5000,
  10000, 50000 and, for segmentation, 1000). At or below the ceiling the building-height
  path accepts and creates a document in processing state. The segmentation path creates
  no document at admission: it runs the analysis first, and a process that does not exit
  with code 0 leaves the collection as it was.
\<close>

theorem area_ceiling_admission:
  assumes "minLat b < maxLat b" and "minLng b < maxLng b"
      and "rq_coordinates req = Some c" and "c_bounds c = Some b"
      and "sq_bounds sreq = Some [minLat b, minLng b, maxLat b, maxLng b]"
  shows "((fst (estimateBuildingHeights ck req st) = Inl AreaTooLarge \<longleftrightarrow> areaSize b > 100) \<and>
          (areaSize b \<le> 100 \<longrightarrow>
             (\<exists>j. estimateBuildingHeights ck req st = (Inr j, st @ [job_doc j]) \<and>
                  status (job_doc j) = Processing \<and> coord_bounds (job_doc j) = Some b))) \<and>
         (fst (detectMiningActivities ck req st) = Inl AreaTooLarge \<longleftrightarrow> areaSize b > 5000) \<and>
         (fst (analyzeDeforestation ck req st) = Inl AreaTooLarge \<longleftrightarrow> areaSize b > 10000) \<and>
         (fst (detectForestFires ck req st) = Inl AreaTooLarge \<longleftrightarrow> areaSize b > 50000) \<and>
         ((fst (processGeographicArea parse ck sreq out (st, al)) = SegRejected AreaTooLarge
             \<longleftrightarrow> calculateAreaSize (minLat b) (minLng b) (maxLat b) (maxLng b) > 1000) \<and>
          (calculateAreaSize (minLat b) (minLng b) (maxLat b) (maxLng b) \<le> 1000 \<and>
           code \<noteq> Some 0 \<longrightarrow>
             processGeographicArea parse ck sreq (Closed code so se) (st, al)
               = (SegFailed (''Satellite processing failed: '' @ se), st, al)))"
proof (intro conjI)
  show "fst (estimateBuildingHeights ck req st) = Inl AreaTooLarge \<longleftrightarrow> areaSize b > 100"
    and "areaSize b \<le> 100 \<longrightarrow>
           (\<exists>j. estimateBuildingHeights ck req st = (Inr j, st @ [job_doc j]) \<and>
                status (job_doc j) = Processing \<and> coord_bounds (job_doc j) = Some b)"
    using height_admission_decides [OF assms(3,4), of ck st] by blast+
  show "fst (detectMiningActivities ck req st) = Inl AreaTooLarge \<longleftrightarrow> areaSize b > 5000"
    unfolding detectMiningActivities_def
    by (rule bounded_admission_decides [OF assms(3,4,1,2)])
  show "fst (analyzeDeforestation ck req st) = Inl AreaTooLarge \<longleftrightarrow> areaSize b > 10000"
    unfolding analyzeDeforestation_def
    by (rule bounded_admission_decides [OF assms(3,4,1,2)])
  show "fst (detectForestFires ck req st) = Inl AreaTooLarge \<longleftrightarrow> areaSize b > 50000"
    unfolding detectForestFires_def
    by (rule bounded_admission_decides [OF assms(3,4,1,2)])
  show "fst (processGeographicArea parse ck sreq out (st, al)) = SegRejected AreaTooLarge
          \<longleftrightarrow> calculateAreaSize (minLat b) (minLng b) (maxLat b) (maxLng b) > 1000"
    by (rule segment_admission_area [OF assms(5,1,2)])
  show "calculateAreaSize (minLat b) (minLng b) (maxLat b) (maxLng b) \<le> 1000 \<and>
        code \<noteq> Some 0 \<longrightarrow>
          processGeographicArea parse ck sreq (Closed code so se) (st, al)
            = (SegFailed (''Satellite processing failed: '' @ se), st, al)"
    using segment_failure_no_record [OF assms(5,1,2)] by blast
qed

theorem area_ceiling_admission_witness:
  "fst (estimateBuildingHeights ck0 (bounds_req small_box) []) \<noteq> Inl AreaTooLarge \<and>
   map status (snd (estimateBuildingHeights ck0 (bounds_req small_box) [])) = [Processing] \<and>
   fst (detectForestFires ck0 (bounds_req small_box) []) \<noteq> Inl AreaTooLarge \<and>
   processGeographicArea (parse_satellite P0) ck0 (seg_req [- 0.005, 0, 0.005, 0.01])
       (Closed (Some 1) [] ''boom'') ([], [])
     = (SegFailed ''Satellite processing failed: boom'', [], [])"
  using area_ceiling_admission [where b = small_box and req = "bounds_req small_box"
      and c = "\<lparr> c_bounds = Some small_box, c_lat = None, c_lng = None, c_radius = None \<rparr>"
      and sreq = "seg_req [- 0.005, 0, 0.005, 0.01]" and ck = ck0 and st = "[]" and al = "[]"
      and parse = "parse_satellite P0" and out = "Closed (Some 1) [] ''boom''"
      and code = "Some 1" and so = "[]" and se = "''boom''"]
  by (auto simp add: small_box_def bounds_req_def seg_req_def areaSize_def calculateAreaSize_def)

text \<open>
  The segmentation path runs the analysis before it saves anything: an area below the
  ceiling with a process that exits with code 1 leaves the collection empty.
\<close>

theorem segmentation_failure_counterexample:
  "calculateAreaSize (- 0.05) 0 0.05 0.1 \<le> 1000 \<and>
   processGeographicArea (parse_satellite P0) ck0 (seg_req [- 0.05, 0, 0.05, 0.1])
       (Closed (Some 1) [] ''boom'') ([], [])
     = (SegFailed ''Satellite processing failed: boom'', [], [])"
  by (simp add: calculateAreaSize_def processGeographicArea_def processAreaWithSatelliteData_def
        seg_req_def Let_def)

lemma calculateAreaSize_spec:
  "calculateAreaSize (minLat b) (minLng b) (maxLat b) (maxLng b) = spec_area b"
  by (simp add: calculateAreaSize_def spec_area_def Let_def)

text \<open>
  Claim C7, as amended. Only \<^verbatim>\<open>calculateAreaSize\<close> of the segmentation path computes
  the formula with the factor 111.32 and the cosine of the mean latitude. The height,
  mining, deforestation and fire paths compare the product of the two extents with
  \<open>111 * 111\<close>, without a cosine, against their ceilings.
\<close>

theorem area_formula_per_kind:
  assumes "minLat b < maxLat b" and "minLng b < maxLng b"
      and "rq_coordinates req = Some c" and "c_bounds c = Some b"
      and "sq_bounds sreq = Some [minLat b, minLng b, maxLat b, maxLng b]"
  shows "calculateAreaSize (minLat b) (minLng b) (maxLat b) (maxLng b) = spec_area b \<and>
         (fst (processGeographicArea parse ck sreq out (st, al)) = SegRejected AreaTooLarge
            \<longleftrightarrow> spec_area b > 1000) \<and>
         (fst (estimateBuildingHeights ck req st) = Inl AreaTooLarge
            \<longleftrightarrow> (maxLat b - minLat b) * (maxLng b - minLng b) * 111 * 111 > 100) \<and>
         (fst (detectMiningActivities ck req st) = Inl AreaTooLarge
            \<longleftrightarrow> (maxLat b - minLat b) * (maxLng b - minLng b) * 111 * 111 > 5000) \<and>
         (fst (analyzeDeforestation ck req st) = Inl AreaTooLarge
            \<longleftrightarrow> (maxLat b - minLat b) * (maxLng b - minLng b) * 111 * 111 > 10000) \<and>
         (fst (detectForestFires ck req st) = Inl AreaTooLarge
            \<longleftrightarrow> (maxLat b - minLat b) * (maxLng b - minLng b) * 111 * 111 > 50000)"
proof (intro conjI)
  show "calculateAreaSize (minLat b) (minLng b) (maxLat b) (maxLng b) = spec_area b"
    by (rule calculateAreaSize_spec)
  show "fst (processGeographicArea parse ck sreq out (st, al)) = SegRejected AreaTooLarge
          \<longleftrightarrow> spec_area b > 1000"
    using segment_admission_area [OF assms(5,1,2)] by (simp add: calculateAreaSize_spec)
  show "fst (estimateBuildingHeights ck req st) = Inl AreaTooLarge
          \<longleftrightarrow> (maxLat b - minLat b) * (maxLng b - minLng b) * 111 * 111 > 100"
    using height_admission_decides [OF assms(3,4), of ck st] by (simp add: areaSize_def)
  show "fst (detectMiningActivities ck req st) = Inl AreaTooLarge
          \<longleftrightarrow> (maxLat b - minLat b) * (maxLng b - minLng b) * 111 * 111 > 5000"
    unfolding detectMiningActivities_def
    using bounded_admission_decides [OF assms(3,4,1,2), of Mining 5000] by (simp add: areaSize_def)
  show "fst (analyzeDeforestation ck req st) = Inl AreaTooLarge
          \<longleftrightarrow> (maxLat b - minLat b) * (maxLng b - minLng b) * 111 * 111 > 10000"
    unfolding analyzeDeforestation_def
    using bounded_admission_decides [OF assms(3,4,1,2), of Deforestation 10000]
    by (simp add: areaSize_def)
  show "fst (detectForestFires ck req st) = Inl AreaTooLarge
          \<longleftrightarrow> (maxLat b - minLat b) * (maxLng b - minLng b) * 111 * 111 > 50000"
    unfolding detectForestFires_def
    using bounded_admission_decides [OF assms(3,4,1,2), of Fire 50000] by (simp add: areaSize_def)
qed

theorem area_formula_per_kind_witness:
  "calculateAreaSize (- 0.005) 0 0.005 0.01 = spec_area small_box \<and>
   fst (processGeographicArea (parse_satellite P0) ck0 (seg_req [- 0.005, 0, 0.005, 0.01])
          (Closed (Some 0) ''{}'' []) ([], [])) \<noteq> SegRejected AreaTooLarge \<and>
   fst (analyzeDeforestation ck0 (bounds_req small_box) []) \<noteq> Inl AreaTooLarge"
  using area_formula_per_kind [where b = small_box and req = "bounds_req small_box"
      and c = "\<lparr> c_bounds = Some small_box, c_lat = None, c_lng = None, c_radius = None \<rparr>"
      and sreq = "seg_req [- 0.005, 0, 0.005, 0.01]" and ck = ck0 and st = "[]" and al = "[]"
      and parse = "parse_satellite P0" and out = "Closed (Some 0) ''{}'' []"]
  by (simp add: small_box_def bounds_req_def seg_req_def spec_area_def)

text \<open>
  A box on the equator for which the two formulas fall on different sides of the
  building-height ceiling: the controller computes less than 100 and admits it, the
  formula with the cosine gives more than 100.
\<close>

theorem flat_area_counterexample:
  "areaSize near_ceiling_box < 100 \<and> 100 < spec_area near_ceiling_box \<and>
   fst (estimateBuildingHeights ck0 (bounds_req near_ceiling_box) []) \<noteq> Inl AreaTooLarge"
  by (simp add: near_ceiling_box_def bounds_req_def estimateBuildingHeights_def height_bounds_def
        areaSize_def spec_area_def start_job_def Let_def)

section \<open>Sign and monotonicity of the area\<close>

lemma areaSize_nonneg_mono:
  assumes "minLat b \<le> maxLat b" "minLng b \<le> maxLng b"
      and "minLat b' \<le> minLat b" "minLng b' \<le> minLng b"
      and "maxLat b \<le> maxLat b'" "maxLng b \<le> maxLng b'"
  shows "0 \<le> areaSize b \<and> areaSize b \<le> areaSize b'"
proof -
  have "(maxLat b - minLat b) * (maxLng b - minLng b)
          \<le> (maxLat b' - minLat b') * (maxLng b' - minLng b')"
    using assms by (intro mult_mono) linarith+
  moreover have "0 \<le> (maxLat b - minLat b) * (maxLng b - minLng b)"
    using assms by simp
  ultimately show ?thesis
    by (simp add: areaSize_def)
qed

lemma mean_latitude_cos_nonneg:
  fixes a b :: real
  assumes "- 90 \<le> a" "a \<le> b" "b \<le> 90"
  shows "0 \<le> cos (((a + b) / 2 * pi) / 180)"
proof -
  have x: "- 90 \<le> (a + b) / 2" "(a + b) / 2 \<le> 90"
    using assms by simp_all
  have "- 90 * pi \<le> (a + b) / 2 * pi"
    using x(1) pi_ge_zero by (rule mult_right_mono)
  moreover have "(a + b) / 2 * pi \<le> 90 * pi"
    using x(2) pi_ge_zero by (rule mult_right_mono)
  ultimately have "- (pi / 2) \<le> ((a + b) / 2 * pi) / 180" "((a + b) / 2 * pi) / 180 \<le> pi / 2"
    by simp_all
  then show ?thesis
    by (rule cos_ge_zero)
qed

lemma calculateAreaSize_nonneg_lng_mono:
  assumes "a \<le> b" "n \<le> m" "n' \<le> n" "m \<le> m'" "- 90 \<le> a" "b \<le> 90"
  shows "0 \<le> calculateAreaSize a n b m \<and> calculateAreaSize a n b m \<le> calculateAreaSize a n' b m'"
proof -
  define k where "k = (b - a) * 111.32"
  define c where "c = cos (((a + b) / 2 * pi) / 180)"
  have k: "0 \<le> k" using assms by (simp add: k_def)
  have c: "0 \<le> c" unfolding c_def using assms by (intro mean_latitude_cos_nonneg) auto
  have e: "calculateAreaSize a n b m = k * ((m - n) * 111.32 * c)"
          "calculateAreaSize a n' b m' = k * ((m' - n') * 111.32 * c)"
    by (simp_all add: calculateAreaSize_def Let_def k_def c_def)
  have "0 \<le> (m - n) * 111.32 * c"
    using assms c by simp
  moreover have "(m - n) * 111.32 * c \<le> (m' - n') * 111.32 * c"
    using assms c by (intro mult_right_mono) auto
  ultimately show ?thesis
    unfolding e using k by (simp add: mult_left_mono)
qed

text \<open>
  Claim C8, as amended. For well-ordered bounds the product formula \<open>areaSize\<close> is
  non-negative and does not decrease when the box grows in any direction.
  \<^verbatim>\<open>calculateAreaSize\<close> is non-negative when the latitudes lie between -90 and 90
  degrees, and then does not decrease when the box grows in longitude. Nothing is said of
  its behaviour when the box grows in latitude.
\<close>

theorem area_nonneg_monotone:
  assumes "minLat b < maxLat b" and "minLng b < maxLng b"
      and "minLat b' \<le> minLat b" and "minLng b' \<le> minLng b"
      and "maxLat b \<le> maxLat b'" and "maxLng b \<le> maxLng b'"
  shows "0 \<le> areaSize b \<and> areaSize b \<le> areaSize b' \<and>
         (- 90 \<le> minLat b \<and> maxLat b \<le> 90 \<longrightarrow>
            0 \<le> calculateAreaSize (minLat b) (minLng b) (maxLat b) (maxLng b) \<and>
            calculateAreaSize (minLat b) (minLng b) (maxLat b) (maxLng b)
              \<le> calculateAreaSize (minLat b) (minLng b') (maxLat b) (maxLng b'))"
  using areaSize_nonneg_mono [of b b'] calculateAreaSize_nonneg_lng_mono
          [of "minLat b" "maxLat b" "minLng b" "maxLng b" "minLng b'" "maxLng b'"]
        assms
  by simp

theorem area_nonneg_monotone_witness:
  "0 \<le> areaSize small_box \<and> areaSize small_box \<le> areaSize near_ceiling_box \<and>
   0 \<le> calculateAreaSize (- 0.005) 0 0.005 0.01 \<and>
   calculateAreaSize (- 0.005) 0 0.005 0.01 \<le> calculateAreaSize (- 0.005) 0 0.005 0.09"
  using area_nonneg_monotone [of small_box near_ceiling_box]
  by (simp add: small_box_def near_ceiling_box_def)

text \<open>
  The route of the segmentation endpoint accepts every entry of the bounds between -180
  and 180. For such latitudes \<^verbatim>\<open>calculateAreaSize\<close> can be negative, and raising
  \<^verbatim>\<open>maxLat\<close> from 120 to 180 lowers the area.
\<close>

theorem area_out_of_range_counterexample:
  "(60::real) < 180 \<and> (0::real) < 1 \<and> calculateAreaSize 60 0 180 1 < 0 \<and>
   calculateAreaSize 0 0 180 1 < calculateAreaSize 0 0 120 1"
  by (simp add: calculateAreaSize_def Let_def cos_120 cos_60)

section \<open>Batch decomposition\<close>

lemma batch_loop_unfold:
  "batch_loop uid bid bs (chunkSize * k) (st, rs) =
     (st @ map (\<lambda>q. chunk_record uid bid bs (chunkSize * q)) [k ..< (length bs + 49) div 50],
      rs @ map (\<lambda>q. chunk_answer bid bs (chunkSize * q)) [k ..< (length bs + 49) div 50])"
proof (induction "(length bs + 49) div 50 - k" arbitrary: k st rs)
  case 0
  then have "\<not> chunkSize * k < length bs"
    by (simp add: chunkSize_def)
  moreover have "[k ..< (length bs + 49) div 50] = []"
    using 0 by simp
  ultimately show ?case
    by (simp add: batch_loop.simps [of uid bid bs "chunkSize * k"])
next
  case (Suc d)
  then have lt: "k < (length bs + 49) div 50"
    by simp
  then have run: "chunkSize * k < length bs"
    by (simp add: chunkSize_def)
  have d: "d = (length bs + 49) div 50 - Suc k"
    using Suc(2) by simp
  have step: "chunkSize * k + chunkSize = chunkSize * Suc k"
    by simp
  show ?case
    using run
    by (simp add: batch_loop.simps [of uid bid bs "chunkSize * k"] step Suc(1) [OF d]
          upt_conv_Cons [OF lt] del: mult_Suc_right)
qed

lemma concat_slices:
  "k \<le> n \<Longrightarrow>
   concat (map (\<lambda>q. take c (drop (c * q) xs)) [k ..< n]) = take (c * (n - k)) (drop (c * k) xs)"
proof (induction n)
  case 0
  then show ?case by simp
next
  case (Suc n)
  show ?case
  proof (cases "k = Suc n")
    case True
    then show ?thesis by simp
  next
    case False
    with Suc.prems have kn: "k \<le> n" by simp
    have e: "c * (Suc n - k) = c * (n - k) + c"
      using kn by (simp add: Suc_diff_le)
    have f: "c * (n - k) + c * k = c * n"
      using kn by (simp add: distrib_left [symmetric])
    show ?thesis
      using kn Suc.IH [OF kn]
      by (simp add: e take_add f)
  qed
qed

lemma concat_slices_all:
  "concat (map (\<lambda>q. take 50 (drop (50 * q) xs)) [0 ..< (length xs + 49) div 50]) = xs"
proof -
  have "length xs \<le> 50 * ((length xs + 49) div 50)"
    by linarith
  then show ?thesis
    by (simp add: concat_slices)
qed

lemma chunk_record_valid: "valid_record (chunk_record uid bid bs i)"
  by (simp add: valid_record_def chunk_record_def Let_def)

lemma chunk_record_fields:
  "coord_buildings (chunk_record uid bid bs (chunkSize * q)) =
     map building_ref.truncate (take 50 (drop (50 * q) bs))"
  "meta_batchId (chunk_record uid bid bs (chunkSize * q)) = Some bid"
  "meta_chunkIndex (chunk_record uid bid bs (chunkSize * q)) = Some q"
  "meta_totalBuildings (chunk_record uid bid bs (chunkSize * q)) =
     Some (length (take 50 (drop (50 * q) bs)))"
  "processingId (chunk_record uid bid bs (chunkSize * q)) = Some (bid @ ''_chunk_'' @ show_nat q)"
  "status (chunk_record uid bid bs (chunkSize * q)) = Processing"
  "detections (chunk_record uid bid bs (chunkSize * q)) = []"
  "summary (chunk_record uid bid bs (chunkSize * q)) = None"
  "meta_error (chunk_record uid bid bs (chunkSize * q)) = None"
  by (simp_all add: chunk_record_def slice_def chunkSize_def Let_def)

lemma chunk_answer_fields:
  "cr_processingId (chunk_answer bid bs (chunkSize * q)) = bid @ ''_chunk_'' @ show_nat q"
  "cr_buildingCount (chunk_answer bid bs (chunkSize * q)) = length (take 50 (drop (50 * q) bs))"
  "cr_status (chunk_answer bid bs (chunkSize * q)) = Queued"
  by (simp_all add: chunk_answer_def slice_def chunkSize_def)

lemma batch_loop_from_start:
  "batch_loop uid bid bs 0 (st, []) =
     (st @ map (\<lambda>q. chunk_record uid bid bs (chunkSize * q)) [0 ..< (length bs + 49) div 50],
      map (\<lambda>q. chunk_answer bid bs (chunkSize * q)) [0 ..< (length bs + 49) div 50])"
  using batch_loop_unfold [of uid bid bs 0 st "[]"] by simp

lemma chunks_concat:
  "concat (map coord_buildings
       (map (\<lambda>q. chunk_record uid bid bs (chunkSize * q)) [0 ..< (length bs + 49) div 50]))
     = map building_ref.truncate bs"
proof -
  have "concat (map coord_buildings
          (map (\<lambda>q. chunk_record uid bid bs (chunkSize * q)) [0 ..< (length bs + 49) div 50]))
        = concat (map (map building_ref.truncate)
            (map (\<lambda>q. take 50 (drop (50 * q) bs)) [0 ..< (length bs + 49) div 50]))"
    by (simp add: chunk_record_fields comp_def)
  also have "\<dots> = map building_ref.truncate
                     (concat (map (\<lambda>q. take 50 (drop (50 * q) bs)) [0 ..< (length bs + 49) div 50]))"
    by (simp only: map_concat)
  finally show ?thesis
    by (simp only: concat_slices_all)
qed

lemma chunks_total:
  "sum_list (map (length \<circ> coord_buildings)
       (map (\<lambda>q. chunk_record uid bid bs (chunkSize * q)) [0 ..< (length bs + 49) div 50]))
     = length bs"
proof -
  have "length (concat (map coord_buildings
          (map (\<lambda>q. chunk_record uid bid bs (chunkSize * q)) [0 ..< (length bs + 49) div 50])))
        = length bs"
    by (simp only: chunks_concat length_map)
  then show ?thesis
    by (simp add: length_concat comp_def)
qed

lemma batch_records_processing:
  assumes "batchHeightEstimation ck req st = (Inr resp, st')"
  shows "\<exists>recs. st' = st @ recs \<and> list_all (\<lambda>r. status r = Processing) recs \<and>
               list_all (\<lambda>a. cr_status a = Queued) (br_results resp) \<and>
               length (br_results resp) = length recs"
  using assms
  by (auto simp add: batchHeightEstimation_def Let_def batch_loop_from_start list_all_iff
        chunk_record_fields chunk_answer_fields split: option.splits if_splits)

text \<open>
  Claim C4. A batch of \<open>N\<close> buildings with \<open>1 \<le> N \<le> 1000\<close> appends
  \<open>\<lceil>N / 50\<rceil>\<close> documents to the collection. The document of chunk \<open>q\<close> holds
  the buildings at positions \<open>50 * q\<close> to \<open>50 * q + 49\<close> of the input, in order (their
  \<^verbatim>\<open>lat\<close>, \<^verbatim>\<open>lng\<close> and \<^verbatim>\<open>id\<close>), at most 50 of them; together the chunks are the
  input, so their sizes sum to \<open>N\<close>. All chunks carry the batch id of the answer and the
  chunk index \<open>q\<close>, counted from 0. An empty array is rejected as an empty batch and more
  than 1000 buildings as too large, and the collection is left as it was.
\<close>

theorem batch_chunks:
  assumes "bq_buildings req = Some bs"
  shows "(length bs = 0 \<longrightarrow> batchHeightEstimation ck req st = (Inl EmptyBatch, st)) \<and>
         (1000 < length bs \<longrightarrow> batchHeightEstimation ck req st = (Inl BatchTooLarge, st)) \<and>
         (1 \<le> length bs \<and> length bs \<le> 1000 \<longrightarrow>
            (\<exists>resp recs.
               batchHeightEstimation ck req st = (Inr resp, st @ recs) \<and>
               length recs = (length bs + 49) div 50 \<and>
               br_chunks resp = length recs \<and>
               br_totalBuildings resp = length bs \<and>
               (\<forall>q < length recs.
                  coord_buildings (recs ! q) = map building_ref.truncate (take 50 (drop (50 * q) bs)) \<and>
                  length (coord_buildings (recs ! q)) \<le> 50 \<and>
                  meta_totalBuildings (recs ! q) = Some (length (coord_buildings (recs ! q))) \<and>
                  meta_batchId (recs ! q) = Some (br_batchId resp) \<and>
                  meta_chunkIndex (recs ! q) = Some q \<and>
                  processingId (recs ! q) = Some (cr_processingId (br_results resp ! q)) \<and>
                  cr_buildingCount (br_results resp ! q) = length (coord_buildings (recs ! q))) \<and>
               concat (map coord_buildings recs) = map building_ref.truncate bs \<and>
               sum_list (map (length \<circ> coord_buildings) recs) = length bs))"
proof (intro conjI impI)
  assume "length bs = 0"
  then show "batchHeightEstimation ck req st = (Inl EmptyBatch, st)"
    using assms by (simp add: batchHeightEstimation_def)
next
  assume "1000 < length bs"
  then show "batchHeightEstimation ck req st = (Inl BatchTooLarge, st)"
    using assms by (auto simp add: batchHeightEstimation_def)
next
  assume n: "1 \<le> length bs \<and> length bs \<le> 1000"
  define uid where "uid = str_or (bq_userId req) ANONYMOUS_USER_ID"
  define bid where "bid = mk_pid ''batch_height'' ck"
  define recs where
    "recs = map (\<lambda>q. chunk_record uid bid bs (chunkSize * q)) [0 ..< (length bs + 49) div 50]"
  define answers where
    "answers = map (\<lambda>q. chunk_answer bid bs (chunkSize * q)) [0 ..< (length bs + 49) div 50]"
  define resp where
    "resp = \<lparr> br_batchId = bid, br_totalBuildings = length bs,
              br_chunks = length answers, br_results = answers \<rparr>"
  have ne: "bs \<noteq> []"
    using n by auto
  have run: "batchHeightEstimation ck req st = (Inr resp, st @ recs)"
    using assms n ne
    by (simp add: batchHeightEstimation_def Let_def batch_loop_from_start
          uid_def [symmetric] bid_def [symmetric] recs_def answers_def resp_def)
  have len: "length recs = (length bs + 49) div 50" "length answers = (length bs + 49) div 50"
    by (simp_all add: recs_def answers_def)
  have each: "\<forall>q < length recs.
      coord_buildings (recs ! q) = map building_ref.truncate (take 50 (drop (50 * q) bs)) \<and>
      length (coord_buildings (recs ! q)) \<le> 50 \<and>
      meta_totalBuildings (recs ! q) = Some (length (coord_buildings (recs ! q))) \<and>
      meta_batchId (recs ! q) = Some (br_batchId resp) \<and>
      meta_chunkIndex (recs ! q) = Some q \<and>
      processingId (recs ! q) = Some (cr_processingId (br_results resp ! q)) \<and>
      cr_buildingCount (br_results resp ! q) = length (coord_buildings (recs ! q))"
    by (simp add: recs_def answers_def resp_def chunk_record_fields chunk_answer_fields)
  have cat: "concat (map coord_buildings recs) = map building_ref.truncate bs"
    unfolding recs_def by (rule chunks_concat)
  have total: "sum_list (map (length \<circ> coord_buildings) recs) = length bs"
    unfolding recs_def by (rule chunks_total)
  have "br_chunks resp = length recs" "br_totalBuildings resp = length bs"
    by (simp_all add: resp_def len)
  with run len each cat total
  show "\<exists>resp recs.
          batchHeightEstimation ck req st = (Inr resp, st @ recs) \<and>
          length recs = (length bs + 49) div 50 \<and>
          br_chunks resp = length recs \<and>
          br_totalBuildings resp = length bs \<and>
          (\<forall>q < length recs.
             coord_buildings (recs ! q) = map building_ref.truncate (take 50 (drop (50 * q) bs)) \<and>
             length (coord_buildings (recs ! q)) \<le> 50 \<and>
             meta_totalBuildings (recs ! q) = Some (length (coord_buildings (recs ! q))) \<and>
             meta_batchId (recs ! q) = Some (br_batchId resp) \<and>
             meta_chunkIndex (recs ! q) = Some q \<and>
             processingId (recs ! q) = Some (cr_processingId (br_results resp ! q)) \<and>
             cr_buildingCount (br_results resp ! q) = length (coord_buildings (recs ! q))) \<and>
          concat (map coord_buildings recs) = map building_ref.truncate bs \<and>
          sum_list (map (length \<circ> coord_buildings) recs) = length bs"
    by blast
qed

theorem batch_chunks_witness:
  "\<exists>resp recs. batchHeightEstimation ck0 (sample_batch 120) [] = (Inr resp, recs) \<and>
      length recs = 3 \<and> br_chunks resp = 3 \<and>
      map (length \<circ> coord_buildings) recs = [50, 50, 20] \<and>
      map meta_chunkIndex recs = [Some 0, Some 1, Some 2]"
proof -
  obtain resp recs where
    r: "batchHeightEstimation ck0 (sample_batch 120) [] = (Inr resp, [] @ recs)"
       "length recs = 3" "br_chunks resp = length recs"
       "\<forall>q < length recs.
          coord_buildings (recs ! q) =
            map building_ref.truncate (take 50 (drop (50 * q) (replicate 120 sample_building))) \<and>
          length (coord_buildings (recs ! q)) \<le> 50 \<and>
          meta_totalBuildings (recs ! q) = Some (length (coord_buildings (recs ! q))) \<and>
          meta_batchId (recs ! q) = Some (br_batchId resp) \<and>
          meta_chunkIndex (recs ! q) = Some q \<and>
          processingId (recs ! q) = Some (cr_processingId (br_results resp ! q)) \<and>
          cr_buildingCount (br_results resp ! q) = length (coord_buildings (recs ! q))"
    using batch_chunks [of "sample_batch 120" "replicate 120 sample_building" ck0 "[]"]
    by (auto simp add: sample_batch_def)
  obtain a b c where abc: "recs = [a, b, c]"
    using r(2) by (auto simp add: length_Suc_conv numeral_3_eq_3)
  have "coord_buildings a = map building_ref.truncate (take 50 (drop (50 * 0) (replicate 120 sample_building)))"
       "coord_buildings b = map building_ref.truncate (take 50 (drop (50 * 1) (replicate 120 sample_building)))"
       "coord_buildings c = map building_ref.truncate (take 50 (drop (50 * 2) (replicate 120 sample_building)))"
       "meta_chunkIndex a = Some 0" "meta_chunkIndex b = Some 1" "meta_chunkIndex c = Some 2"
    using r(4) [rule_format, of 0] r(4) [rule_format, of 1] r(4) [rule_format, of 2]
    by (simp_all add: abc)
  then have "map (length \<circ> coord_buildings) recs = [50, 50, 20]"
       "map meta_chunkIndex recs = [Some 0, Some 1, Some 2]"
    by (simp_all add: abc)
  with r show ?thesis
    by simp
qed

text \<open>
  Claim C5. The document of a chunk is saved with status \<^verbatim>\<open>processing\<close>, while the
  answer of the same request reports the chunk as \<^verbatim>\<open>queued\<close>: for a batch of one
  building the collection holds one document in processing state and the answer lists
  the same processing id as queued. This holds for every chunk of every batch
  (\<open>batch_records_processing\<close>).
\<close>

theorem batch_chunk_stored_processing:
  "\<not> isl (fst (batchHeightEstimation ck0 (sample_batch 1) [])) \<and>
   map status (snd (batchHeightEstimation ck0 (sample_batch 1) [])) = [Processing] \<and>
   map cr_status (br_results (projr (fst (batchHeightEstimation ck0 (sample_batch 1) []))))
     = [Queued] \<and>
   map processingId (snd (batchHeightEstimation ck0 (sample_batch 1) []))
     = map (Some \<circ> cr_processingId)
         (br_results (projr (fst (batchHeightEstimation ck0 (sample_batch 1) []))))"
  by (simp add: batchHeightEstimation_def sample_batch_def Let_def batch_loop_from_start
        chunk_record_fields chunk_answer_fields
        chunk_record_fields [of _ _ _ 0, simplified] chunk_answer_fields [of _ _ 0, simplified])

section \<open>Lookups in the collection\<close>

lemma find_from_append:
  "find_from n pid (xs @ ys) =
     (case find_from n pid xs of
        Some r \<Rightarrow> Some r
      | None \<Rightarrow> find_from (n + length xs) pid ys)"
  by (induction xs arbitrary: n) (simp_all split: option.splits)

lemma find_from_Some:
  "find_from n pid xs = Some (i, r) \<Longrightarrow>
     n \<le> i \<and> i < n + length xs \<and> xs ! (i - n) = r \<and> processingId r = Some pid"
proof (induction xs arbitrary: n)
  case Nil
  then show ?case by simp
next
  case (Cons x xs)
  show ?case
  proof (cases "processingId x = Some pid")
    case True
    with Cons.prems show ?thesis by auto
  next
    case False
    with Cons.prems have "find_from (Suc n) pid xs = Some (i, r)" by simp
    from Cons.IH [OF this] show ?thesis
      by (auto simp add: nth_Cons' Suc_diff_Suc less_eq_Suc_le)
  qed
qed

lemma find_from_update_other:
  assumes "find_from n pid xs = Some (i, r)" and "i \<noteq> n + k"
      and "k < length xs" and "processingId r' = processingId (xs ! k)"
  shows "find_from n pid (xs[k := r']) = Some (i, r)"
  using assms
proof (induction xs arbitrary: n k)
  case Nil
  then show ?case by simp
next
  case (Cons x xs)
  show ?case
  proof (cases k)
    case 0
    with Cons.prems show ?thesis
      by (auto split: if_splits)
  next
    case (Suc k')
    show ?thesis
    proof (cases "processingId x = Some pid")
      case True
      with Cons.prems Suc show ?thesis by simp
    next
      case False
      with Cons.prems have f: "find_from (Suc n) pid xs = Some (i, r)" by simp
      have "find_from (Suc n) pid (xs[k' := r']) = Some (i, r)"
        using Cons.prems Suc by (intro Cons.IH [OF f]) auto
      with False Suc show ?thesis by simp
    qed
  qed
qed

lemma findOne_append_keep:
  "findOne pid st = Some x \<Longrightarrow> findOne pid (st @ ext) = Some x"
  by (simp add: findOne_def find_from_append)

lemma findOne_append_new:
  "findOne pid st = None \<Longrightarrow> processingId r = Some pid \<Longrightarrow>
   findOne pid (st @ [r]) = Some (length st, r)"
  by (simp add: findOne_def find_from_append)

lemma findOne_update_other:
  assumes "findOne pid st = Some (i, r)" and "i \<noteq> k"
      and "k < length st" and "processingId r' = processingId (st ! k)"
  shows "findOne pid (st[k := r']) = Some (i, r)"
  using find_from_update_other [of 0 pid st i r k r'] assms by (simp add: findOne_def)

lemma findOne_Some:
  "findOne pid st = Some (i, r) \<Longrightarrow> i < length st \<and> st ! i = r \<and> processingId r = Some pid"
  using find_from_Some [of 0 pid st i r] by (simp add: findOne_def)

section \<open>What each event does to the collection\<close>

lemma start_job_fields:
  "start_job k pid (new_record uid pid model conf b zone atype) st = (res, st') \<Longrightarrow>
     \<exists>j. res = Inr j \<and> st' = st @ [job_doc j] \<and> job_doc_id j = length st \<and> job_kind j = k \<and>
         status (job_doc j) = Processing \<and> processingId (job_doc j) = Some (job_pid j) \<and>
         detections (job_doc j) = [] \<and> summary (job_doc j) = None \<and> meta_error (job_doc j) = None"
  by (auto simp add: start_job_def new_record_def)

lemma bounded_admission_shape:
  assumes "bounded_admission k limit prefix model zone atype ck req st = (res, st')"
  shows "(\<exists>e. res = Inl e \<and> st' = st) \<or>
         (\<exists>j. res = Inr j \<and> st' = st @ [job_doc j] \<and> job_doc_id j = length st \<and> job_kind j = k \<and>
              status (job_doc j) = Processing \<and> processingId (job_doc j) = Some (job_pid j) \<and>
              detections (job_doc j) = [] \<and> summary (job_doc j) = None \<and> meta_error (job_doc j) = None)"
proof -
  have "isl res" and "st' = st"
    using assms bounded_admission_never_saves [of k limit prefix model zone atype ck req st]
    by simp_all
  then show ?thesis
    by (cases res) auto
qed

lemma height_admission_shape:
  assumes "estimateBuildingHeights ck req st = (res, st')"
  shows "(\<exists>e. res = Inl e \<and> st' = st) \<or>
         (\<exists>j. res = Inr j \<and> st' = st @ [job_doc j] \<and> job_doc_id j = length st \<and>
              job_kind j = BuildingHeight \<and>
              status (job_doc j) = Processing \<and> processingId (job_doc j) = Some (job_pid j) \<and>
              detections (job_doc j) = [] \<and> summary (job_doc j) = None \<and> meta_error (job_doc j) = None)"
proof (cases "\<exists>e. estimateBuildingHeights ck req st = (Inl e, st)")
  case True
  with assms show ?thesis by auto
next
  case False
  then obtain uid pid b z where
    "estimateBuildingHeights ck req st =
       start_job BuildingHeight pid
         (new_record uid pid ''building_height_estimation_v1'' (Some 85) b z ''building_height'') st"
    by (auto simp add: estimateBuildingHeights_def Let_def split: option.splits if_splits)
  with assms show ?thesis
    using start_job_fields by metis
qed

lemma submit_shape:
  assumes "submit k ck req st = (res, st')"
  shows "(\<exists>e. res = Inl e \<and> st' = st) \<or>
         (\<exists>j. res = Inr j \<and> st' = st @ [job_doc j] \<and> job_doc_id j = length st \<and> job_kind j = k \<and>
              status (job_doc j) = Processing \<and> processingId (job_doc j) = Some (job_pid j) \<and>
              detections (job_doc j) = [] \<and> summary (job_doc j) = None \<and> meta_error (job_doc j) = None)"
proof (cases k)
  case BuildingHeight
  with assms show ?thesis
    using height_admission_shape [of ck req st res st'] by (simp add: submit_def)
next
  case Deforestation
  with assms show ?thesis
    using bounded_admission_shape [of Deforestation _ _ _ _ _ ck req st res st']
    by (simp add: submit_def analyzeDeforestation_def)
next
  case Mining
  with assms show ?thesis
    using bounded_admission_shape [of Mining _ _ _ _ _ ck req st res st']
    by (simp add: submit_def detectMiningActivities_def)
next
  case Fire
  with assms show ?thesis
    using bounded_admission_shape [of Fire _ _ _ _ _ ck req st res st']
    by (simp add: submit_def detectForestFires_def)
qed

lemma batch_shape:
  "\<exists>recs. snd (batchHeightEstimation ck req st) = st @ recs \<and> (\<forall>r \<in> set recs. populated_ok r)"
proof (cases "\<exists>bs. bq_buildings req = Some bs \<and> bs \<noteq> [] \<and> \<not> 1000 < length bs")
  case False
  then have "snd (batchHeightEstimation ck req st) = st @ []"
    by (auto simp add: batchHeightEstimation_def split: option.splits)
  then show ?thesis by (metis empty_iff list.set(1))
next
  case True
  then obtain bs where bs: "bq_buildings req = Some bs" "bs \<noteq> []" "\<not> 1000 < length bs"
    by blast
  define recs where
    "recs = map (\<lambda>q. chunk_record (str_or (bq_userId req) ANONYMOUS_USER_ID)
                        (mk_pid ''batch_height'' ck) bs (chunkSize * q))
              [0 ..< (length bs + 49) div 50]"
  have "snd (batchHeightEstimation ck req st) = st @ recs"
    using bs by (simp add: batchHeightEstimation_def Let_def batch_loop_from_start recs_def)
  moreover have "\<forall>r \<in> set recs. populated_ok r"
    by (auto simp add: recs_def populated_ok_def chunk_record_fields)
  ultimately show ?thesis by blast
qed

lemma segment_shape:
  assumes "processGeographicArea parse ck req out (st, al) = (resp, st', al')"
  shows "\<exists>ext. st' = st @ ext \<and> (\<forall>r \<in> set ext. populated_ok r)"
proof -
  have "st' = st @ []"
    using assms segment_never_saves [of parse ck req out st al] by simp
  then show ?thesis by (metis empty_iff list.set(1))
qed

lemma valid_record_status [simp]: "valid_record (r\<lparr> status := x \<rparr>) = valid_record r"
  by (simp add: valid_record_def)

lemma valid_record_meta_error [simp]: "valid_record (r\<lparr> meta_error := e \<rparr>) = valid_record r"
  by (simp add: valid_record_def)

lemma valid_record_summary [simp]: "valid_record (r\<lparr> summary := s \<rparr>) = valid_record r"
  by (simp add: valid_record_def)

lemma try_save_cases:
  "try_save i r st = None \<or> try_save i r st = Some (st[i := r])"
  by (simp add: try_save_def)

lemma height_attempt_cases:
  assumes "status doc = Processing" and "populated_ok doc"
  shows "height_attempt parse i doc code out err st = None \<or>
         (\<exists>r'. height_attempt parse i doc code out err st = Some (st[i := r']) \<and>
              processingId r' = processingId doc \<and> populated_ok r' \<and> terminal (status r'))"
  using assms
  by (auto simp add: height_attempt_def try_save_def valid_record_def populated_ok_def
        terminal_def Let_def split: sum.splits option.splits)

lemma height_on_close_cases:
  assumes "findOne pid st = Some (i, doc)" and "status doc = Processing" and "populated_ok doc"
  shows "height_on_close parse pid code out err st = st \<or>
         (\<exists>r'. height_on_close parse pid code out err st = st[i := r'] \<and>
              processingId r' = processingId doc \<and> populated_ok r' \<and> terminal (status r'))"
proof (cases "height_attempt parse i doc code out err st")
  case None
  then show ?thesis
    using assms
    by (auto simp add: height_on_close_def try_save_def populated_ok_def terminal_def)
next
  case (Some st')
  then show ?thesis
    using assms height_attempt_cases [OF assms(2,3), of parse i code out err st]
    by (auto simp add: height_on_close_def)
qed

lemma analysis_on_close_cases:
  assumes "status (job_doc j) = Processing" and "populated_ok (job_doc j)"
  shows "analysis_on_close parse j code out err st = st \<or>
         (\<exists>r'. analysis_on_close parse j code out err st = st[job_doc_id j := r'] \<and>
              processingId r' = processingId (job_doc j) \<and> populated_ok r' \<and> terminal (status r'))"
  using assms
  by (auto simp add: analysis_on_close_def try_save_def populated_ok_def terminal_def Let_def
        split: sum.splits option.splits)

lemma on_close_cases:
  assumes "pending_ok st j" and "populated_ok (job_doc j)"
  shows "on_close ph pa j code out err st = st \<or>
         (\<exists>r'. on_close ph pa j code out err st = st[job_doc_id j := r'] \<and>
              processingId r' = processingId (job_doc j) \<and> populated_ok r' \<and> terminal (status r'))"
proof (cases "job_kind j = BuildingHeight")
  case True
  then show ?thesis
    using assms height_on_close_cases [of "job_pid j" st "job_doc_id j" "job_doc j" ph code out err]
    by (auto simp add: on_close_def pending_ok_def)
next
  case False
  then show ?thesis
    using assms analysis_on_close_cases [of j pa code out err st]
    by (auto simp add: on_close_def pending_ok_def)
qed

section \<open>Invariant of the reachable states\<close>

lemma stable_refl: "stable st st"
  by (simp add: stable_def)

lemma stable_trans:
  assumes "stable a b" and "stable b c"
  shows "stable a c"
  unfolding stable_def
proof (intro conjI allI impI)
  show "length a \<le> length c"
    using assms by (simp add: stable_def)
next
  fix i
  assume i: "i < length a" and t: "terminal (status (a ! i))"
  then have ab: "b ! i = a ! i"
    using assms(1) by (simp add: stable_def)
  have "i < length b"
    using i assms(1) by (simp add: stable_def)
  then have "c ! i = b ! i"
    using assms(2) t ab by (simp add: stable_def)
  with ab show "c ! i = a ! i" by simp
next
  fix pid i r
  assume f: "findOne pid a = Some (i, r) \<and> terminal (status r)"
  then have "findOne pid b = Some (i, r)"
    using assms(1) unfolding stable_def by blast
  with f show "findOne pid c = Some (i, r)"
    using assms(2) unfolding stable_def by blast
qed

lemma stable_append: "stable st (st @ ext)"
  by (simp add: stable_def nth_append findOne_append_keep)

lemma stable_update:
  assumes "k < length st" and "\<not> terminal (status (st ! k))"
      and "processingId r' = processingId (st ! k)"
  shows "stable st (st[k := r'])"
  unfolding stable_def
proof (intro conjI allI impI)
  show "length st \<le> length (st[k := r'])" by simp
next
  fix i
  assume "i < length st" and "terminal (status (st ! i))"
  with assms(2) have "i \<noteq> k" by auto
  then show "st[k := r'] ! i = st ! i" by simp
next
  fix pid i r
  assume f: "findOne pid st = Some (i, r) \<and> terminal (status r)"
  then have "st ! i = r"
    using findOne_Some by blast
  with f assms(2) have "i \<noteq> k" by auto
  with f assms show "findOne pid (st[k := r']) = Some (i, r)"
    by (intro findOne_update_other) auto
qed

lemma pending_ok_append:
  "pending_ok st j \<Longrightarrow> pending_ok (st @ ext) j"
  by (simp add: pending_ok_def findOne_append_keep nth_append)

lemma inv_append:
  assumes "inv s" and "\<forall>r \<in> set ext. populated_ok r"
  shows "inv (s\<lparr> sys_store := sys_store s @ ext \<rparr>)"
  using assms by (auto simp add: inv_def pending_ok_append)

lemma inv_alerts: "inv (s\<lparr> sys_alerts := a \<rparr>) = inv s"
  by (simp add: inv_def)

lemma inv_submit:
  assumes "inv s"
      and j: "job_doc_id j = length (sys_store s)" "status (job_doc j) = Processing"
             "processingId (job_doc j) = Some (job_pid j)" "populated_ok (job_doc j)"
      and fresh: "findOne (job_pid j) (sys_store s) = None"
  shows "inv (s\<lparr> sys_store := sys_store s @ [job_doc j], sys_pending := sys_pending s @ [j] \<rparr>)"
proof -
  have new: "pending_ok (sys_store s @ [job_doc j]) j"
    using j fresh by (simp add: pending_ok_def findOne_append_new)
  have old: "\<forall>j' \<in> set (sys_pending s). pending_ok (sys_store s @ [job_doc j]) j'"
    using assms(1) by (simp add: inv_def pending_ok_append)
  have "\<forall>j' \<in> set (sys_pending s). job_doc_id j' < length (sys_store s)"
    using assms(1) by (simp add: inv_def pending_ok_def)
  then have "job_doc_id j \<notin> job_doc_id ` set (sys_pending s)"
    using j(1) by auto
  then have "distinct (map job_doc_id (sys_pending s @ [j]))"
    using assms(1) by (simp add: inv_def)
  with new old assms(1) j(4) show ?thesis
    by (auto simp add: inv_def)
qed

lemma distinct_rest:
  assumes "distinct (map f xs)" and "n < length xs"
  shows "distinct (map f (take n xs @ drop (Suc n) xs)) \<and>
         (\<forall>x \<in> set (take n xs @ drop (Suc n) xs). f x \<noteq> f (xs ! n))"
proof -
  have "xs = take n xs @ xs ! n # drop (Suc n) xs"
    using assms(2) by (rule id_take_nth_drop)
  then have "distinct (map f (take n xs @ xs ! n # drop (Suc n) xs))"
    using assms(1) by simp
  then show ?thesis
    by (auto simp add: image_iff)
qed

lemma rest_subset: "set (take n xs @ drop (Suc n) xs) \<subseteq> set xs"
  using set_take_subset [of n xs] set_drop_subset [of "Suc n" xs] by auto

lemma pending_ok_update:
  assumes "pending_ok st j'" and "job_doc_id j' \<noteq> k" and "k < length st"
      and "processingId r' = processingId (st ! k)"
  shows "pending_ok (st[k := r']) j'"
  using assms by (simp add: pending_ok_def findOne_update_other)

lemma inv_close:
  assumes "inv s" and n: "n < length (sys_pending s)"
  shows "inv (s\<lparr> sys_store := on_close ph pa (sys_pending s ! n) code out err (sys_store s),
                 sys_pending := take n (sys_pending s) @ drop (Suc n) (sys_pending s) \<rparr>) \<and>
         stable (sys_store s) (on_close ph pa (sys_pending s ! n) code out err (sys_store s))"
proof -
  define j where "j = sys_pending s ! n"
  define st where "st = sys_store s"
  define rest where "rest = take n (sys_pending s) @ drop (Suc n) (sys_pending s)"
  have jin: "j \<in> set (sys_pending s)"
    using n by (simp add: j_def)
  have pj: "pending_ok st j"
    using assms(1) jin by (simp add: inv_def st_def)
  then have idx: "job_doc_id j < length st" and doc: "st ! job_doc_id j = job_doc j"
    and proc: "status (job_doc j) = Processing"
    by (simp_all add: pending_ok_def)
  have okj: "populated_ok (job_doc j)"
    using assms(1) idx doc nth_mem [OF idx] by (auto simp add: inv_def st_def)
  have rest_ok: "\<forall>j' \<in> set rest. pending_ok st j' \<and> job_doc_id j' \<noteq> job_doc_id j"
    using assms(1) distinct_rest [of job_doc_id "sys_pending s" n] n rest_subset [of n "sys_pending s"]
    by (auto simp add: inv_def rest_def st_def j_def)
  have rest_distinct: "distinct (map job_doc_id rest)"
    using assms(1) distinct_rest [of job_doc_id "sys_pending s" n] n
    by (simp add: inv_def rest_def)
  have all_ok: "\<forall>r \<in> set st. populated_ok r"
    using assms(1) by (simp add: inv_def st_def)
  consider (same) "on_close ph pa j code out err st = st"
    | (upd) r' where "on_close ph pa j code out err st = st[job_doc_id j := r']"
        "processingId r' = processingId (job_doc j)" "populated_ok r'" "terminal (status r')"
    using on_close_cases [OF pj okj, of ph pa code out err] by blast
  then have "inv \<lparr> sys_store = on_close ph pa j code out err st, sys_alerts = sys_alerts s,
                   sys_pending = rest \<rparr> \<and>
             stable st (on_close ph pa j code out err st)"
  proof cases
    case same
    then show ?thesis
      using rest_ok rest_distinct all_ok by (simp add: inv_def stable_refl)
  next
    case upd
    have "\<forall>r \<in> set (st[job_doc_id j := r']). populated_ok r"
      using all_ok upd(3) set_update_subset_insert [of st "job_doc_id j" r'] by auto
    moreover have "\<forall>j' \<in> set rest. pending_ok (st[job_doc_id j := r']) j'"
      using rest_ok idx upd(2) doc by (auto intro!: pending_ok_update)
    moreover have "stable st (st[job_doc_id j := r'])"
      using idx doc proc upd(2) by (intro stable_update) (simp_all add: terminal_def)
    ultimately show ?thesis
      using upd(1) rest_distinct by (simp add: inv_def)
  qed
  then show ?thesis
    by (simp add: j_def st_def rest_def inv_def)
qed

lemma inv_drop_pending:
  assumes "inv s" and "n < length (sys_pending s)"
  shows "inv (s\<lparr> sys_pending := take n (sys_pending s) @ drop (Suc n) (sys_pending s) \<rparr>)"
proof -
  have "distinct (map job_doc_id (take n (sys_pending s) @ drop (Suc n) (sys_pending s)))"
    using assms distinct_rest [of job_doc_id "sys_pending s" n] by (simp add: inv_def)
  moreover have "\<forall>j \<in> set (take n (sys_pending s) @ drop (Suc n) (sys_pending s)).
                   pending_ok (sys_store s) j"
    using assms(1) rest_subset [of n "sys_pending s"] by (auto simp add: inv_def)
  ultimately show ?thesis
    using assms(1) by (simp add: inv_def)
qed

lemma inv_init: "inv init"
  by (simp add: inv_def init_def)

lemma step_inv_stable:
  assumes "inv s" and "apply_event P e s = Some s'"
  shows "inv s' \<and> stable (sys_store s) (sys_store s')"
proof (cases e)
  case (Submit k ck req)
  obtain res st' where sub: "submit k ck req (sys_store s) = (res, st')"
    by (cases "submit k ck req (sys_store s)") auto
  from submit_shape [OF sub] show ?thesis
  proof (elim disjE exE conjE)
    fix e'
    assume "res = Inl e'" "st' = sys_store s"
    with assms Submit sub show ?thesis
      by (auto simp add: apply_event_def stable_refl inv_def)
  next
    fix j
    assume j: "res = Inr j" "st' = sys_store s @ [job_doc j]" "job_doc_id j = length (sys_store s)"
      "status (job_doc j) = Processing" "processingId (job_doc j) = Some (job_pid j)"
      "detections (job_doc j) = []" "summary (job_doc j) = None" "meta_error (job_doc j) = None"
    have fresh: "findOne (job_pid j) (sys_store s) = None"
      using assms(2) Submit sub j(1) by (auto simp add: apply_event_def split: if_splits)
    have s': "s' = s\<lparr> sys_store := sys_store s @ [job_doc j], sys_pending := sys_pending s @ [j] \<rparr>"
      using assms(2) Submit sub j(1,2) fresh by (simp add: apply_event_def)
    have "populated_ok (job_doc j)"
      using j by (simp add: populated_ok_def)
    then show ?thesis
      using inv_submit [OF assms(1) j(3,4,5) _ fresh] s' by (simp add: stable_append)
  qed
next
  case (SubmitBatch ck req)
  obtain recs where "snd (batchHeightEstimation ck req (sys_store s)) = sys_store s @ recs"
      "\<forall>r \<in> set recs. populated_ok r"
    using batch_shape by blast
  with assms SubmitBatch show ?thesis
    using inv_append [OF assms(1), of recs] by (auto simp add: apply_event_def stable_append)
next
  case (Segment ck req out)
  obtain resp st' al' where
    seg: "processGeographicArea (parse_satellite P) ck req out (sys_store s, sys_alerts s) = (resp, st', al')"
    by (cases "processGeographicArea (parse_satellite P) ck req out (sys_store s, sys_alerts s)") auto
  then obtain ext where "st' = sys_store s @ ext" "\<forall>r \<in> set ext. populated_ok r"
    using segment_shape by blast
  with assms Segment seg show ?thesis
    using inv_append [OF assms(1), of ext] by (auto simp add: apply_event_def stable_append inv_def)
next
  case (Close n code out err)
  with assms show ?thesis
    using inv_close [OF assms(1), of n "parse_height P" "parse_analysis P" code out err]
    by (auto simp add: apply_event_def split: if_splits)
next
  case (SpawnError n m)
  with assms show ?thesis
    using inv_drop_pending [OF assms(1), of n]
    by (auto simp add: apply_event_def stable_refl split: if_splits)
next
  case (Poll pid)
  with assms show ?thesis
    by (auto simp add: apply_event_def getHeightResults_def stable_refl inv_def
          split: option.splits)
qed

lemma run_inv_stable:
  "inv s \<Longrightarrow> run P es s = Some s' \<Longrightarrow> inv s' \<and> stable (sys_store s) (sys_store s')"
proof (induction es arbitrary: s)
  case Nil
  then show ?case by (simp add: stable_refl)
next
  case (Cons e es)
  then obtain s1 where s1: "apply_event P e s = Some s1" "run P es s1 = Some s'"
    by (auto split: option.splits)
  have a: "inv s1 \<and> stable (sys_store s) (sys_store s1)"
    using step_inv_stable [OF Cons.prems(1) s1(1)] .
  then have "inv s' \<and> stable (sys_store s1) (sys_store s')"
    using Cons.IH [of s1] s1(2) by simp
  with a show ?case
    using stable_trans by blast
qed

lemma reachable_inv: "run P es init = Some s \<Longrightarrow> inv s"
  using run_inv_stable [OF inv_init] by blast

lemma poll_leaves_store: "snd (getHeightResults pid st) = st"
  by (simp add: getHeightResults_def split: option.splits)

lemma polls_leave_state: "run P (replicate n (Poll pid)) s = Some s"
  by (induction n) (simp_all add: apply_event_def poll_leaves_store)

lemma poll_same_answer:
  assumes "stable st st'" and "findOne pid st = Some (i, r)" and "terminal (status r)"
  shows "fst (getHeightResults pid st') = fst (getHeightResults pid st)"
proof -
  have "findOne pid st' = Some (i, r)"
    using assms unfolding stable_def by blast
  with assms(2) show ?thesis
    by (simp add: getHeightResults_def)
qed

section \<open>Outcome of a closed process\<close>

lemmas eval_defs =
  apply_event_def submit_def estimateBuildingHeights_def analyzeDeforestation_def
  detectMiningActivities_def detectForestFires_def bounded_admission_def height_bounds_def
  bounds_req_def small_box_def areaSize_def start_job_def new_record_def mk_pid_def ck0_def
  ck1_def str_or_def ANONYMOUS_USER_ID_def findOne_def init_def on_close_def height_on_close_def
  height_attempt_def analysis_on_close_def P0_def try_save_def valid_record_def
  valid_detection_def detection_classes_def detection_of_building_def height_summary_def
  analysis_summary_def field_or_def generic_failure_def show_code_def digit_def
  getHeightResults_def Let_def

lemma show_nat_0: "show_nat 0 = ''0''"
  by (simp add: show_nat.simps [of 0] digit_def)

lemma on_close_empty_output:
  assumes "pending_ok st j" and "valid_record (job_doc j)"
  shows "on_close ph pa j (Some 0) [] err st =
           st[job_doc_id j := (job_doc j)\<lparr> status := Failed,
                meta_error := Some (if err \<noteq> [] then err
                                    else generic_failure (job_kind j) (Some 0)) \<rparr>]"
  using assms
  by (simp add: on_close_def height_on_close_def height_attempt_def analysis_on_close_def
        pending_ok_def try_save_def generic_failure_def Let_def)

lemma on_close_nonzero_exit:
  assumes "pending_ok st j" and "valid_record (job_doc j)" and "code \<noteq> Some 0"
  shows "on_close ph pa j code out err st =
           st[job_doc_id j := (job_doc j)\<lparr> status := Failed,
                meta_error := Some (if err \<noteq> [] then err
                                    else generic_failure (job_kind j) code) \<rparr>]"
  using assms
  by (simp add: on_close_def height_on_close_def height_attempt_def analysis_on_close_def
        pending_ok_def try_save_def generic_failure_def Let_def)

lemma on_close_parse_failure:
  assumes "pending_ok st j" and "valid_record (job_doc j)" and "out \<noteq> []"
      and "ph out = Inl m" and "pa out = Inl m"
  shows "on_close ph pa j (Some 0) out err st =
           (if job_kind j = BuildingHeight
            then st[job_doc_id j := (job_doc j)\<lparr> status := Failed,
                      meta_error := Some (''JSON parsing error: '' @ m) \<rparr>]
            else st)"
  using assms
  by (simp add: on_close_def height_on_close_def height_attempt_def analysis_on_close_def
        pending_ok_def try_save_def Let_def)

lemma on_close_parsed_height:
  assumes "pending_ok st j" and "valid_record (job_doc j)" and "out \<noteq> []"
      and "job_kind j = BuildingHeight" and "ph out = Inr results"
      and "map_throw detection_of_building
             (case hr_buildings results of None \<Rightarrow> [] | Some bs \<Rightarrow> bs) = Inr ds"
      and "list_all valid_detection ds"
  shows "on_close ph pa j (Some 0) out err st =
           st[job_doc_id j := (job_doc j)\<lparr> status := Completed, detections := ds,
                summary := Some (height_summary (hr_summary results)) \<rparr>]"
  using assms
  by (simp add: on_close_def height_on_close_def height_attempt_def pending_ok_def try_save_def
        valid_record_def Let_def)

lemma on_close_rejected_detection:
  assumes "pending_ok st j" and "valid_record (job_doc j)" and "out \<noteq> []"
      and "job_kind j = BuildingHeight" and "ph out = Inr results"
      and "map_throw detection_of_building
             (case hr_buildings results of None \<Rightarrow> [] | Some bs \<Rightarrow> bs) = Inr ds"
      and "\<not> list_all valid_detection ds"
  shows "on_close ph pa j (Some 0) out err st =
           st[job_doc_id j := (job_doc j)\<lparr> status := Failed,
                meta_error := Some validation_message \<rparr>]"
  using assms
  by (simp add: on_close_def height_on_close_def height_attempt_def pending_ok_def try_save_def
        valid_record_def Let_def)

text \<open>
  Claim C1. A building-height job has been admitted and its analysis process cannot be
  started. The \<^verbatim>\<open>error\<close> event of the process has no listener in
  \<^verbatim>\<open>estimateBuildingHeights\<close>, so no handler of the controller runs: the document stays
  in processing state with no error, no process is left that could change it, and a poll
  answers \<^verbatim>\<open>processing\<close>. The claim has the record transition to failed. The
  segmentation path registers the listener: \<^verbatim>\<open>processAreaWithSatelliteData\<close> rejects with
  \<^verbatim>\<open>Failed to start satellite processing: ...\<close> and the request is answered with that
  error.
\<close>

theorem height_start_failure_stays_processing:
  "run P0 trace_spawn_error init \<noteq> None \<and>
   map status (sys_store (the (run P0 trace_spawn_error init))) = [Processing] \<and>
   map meta_error (sys_store (the (run P0 trace_spawn_error init))) = [None] \<and>
   sys_pending (the (run P0 trace_spawn_error init)) = [] \<and>
   fst (getHeightResults pid_height0 (sys_store (the (run P0 trace_spawn_error init)))) =
     Found \<lparr> pp_processingId = pid_height0, pp_status = Processing, pp_summary = None,
             pp_buildings = [], pp_error = None \<rparr> \<and>
   processAreaWithSatelliteData (parse_satellite P0) (StartError ''spawn python ENOENT'') =
     Inl ''Failed to start satellite processing: spawn python ENOENT'' \<and>
   processGeographicArea (parse_satellite P0) ck0 (seg_req [- 0.005, 0, 0.005, 0.01])
       (StartError ''spawn python ENOENT'') ([], []) =
     (SegFailed ''Failed to start satellite processing: spawn python ENOENT'', [], [])"
  by (simp add: trace_spawn_error_def pid_height0_def processAreaWithSatelliteData_def
        processGeographicArea_def seg_req_def calculateAreaSize_def eval_defs)

text \<open>
  Claim C10. An imagery fetch has been admitted and its process exits with code 0 and
  empty standard output. The close handler of \<^verbatim>\<open>fetchSatelliteImagery\<close> derives the status
  from the exit code alone: it writes a result with status completed, no data and no error,
  and \<^verbatim>\<open>getImageryResults\<close> answers \<^verbatim>\<open>completed\<close>. The claim has the job marked failed.
  The close handler of the building-height job tests \<^verbatim>\<open>code === 0 && pythonOutput\<close> and
  marks its document failed with \<^verbatim>\<open>Process failed with code 0\<close>.
\<close>

theorem imagery_empty_output_marked_completed:
  "fetchSatelliteImagery ck0 (bounds_req small_box) = Inr ''imagery_1700000000000_k3j9x2m1q'' \<and>
   imagery_on_close parse_none ''imagery_1700000000000_k3j9x2m1q'' (Some 0) [] [] Map.empty
       ''imagery_1700000000000_k3j9x2m1q'' =
     Some \<lparr> ir_status = Completed, ir_data = None, ir_error = None \<rparr> \<and>
   getImageryResults ''imagery_1700000000000_k3j9x2m1q''
       (imagery_on_close parse_none ''imagery_1700000000000_k3j9x2m1q'' (Some 0) [] [] Map.empty) =
     (Completed, None, None) \<and>
   run P0 (trace_close BuildingHeight (Some 0) [] []) init \<noteq> None \<and>
   map status (sys_store (the (run P0 (trace_close BuildingHeight (Some 0) [] []) init)))
     = [Failed] \<and>
   map meta_error (sys_store (the (run P0 (trace_close BuildingHeight (Some 0) [] []) init)))
     = [Some ''Process failed with code 0'']"
  by (simp add: fetchSatelliteImagery_def imagery_on_close_def getImageryResults_def
        trace_close_def show_nat_0 eval_defs)

section \<open>Alerts of a completed job\<close>

lemma alerts_loop_invalid:
  assumes "\<forall>d \<in> set ds. \<not> valid_alert (alert_of uid zone d)"
  shows "alerts_loop uid zone t ds acc = acc"
  using assms by (induction ds arbitrary: acc) (auto split: prod.splits)

lemma no_alert_without_zone:
  "createAlertsFromDetections uid None ds threshold alerts = (alerts, 0)"
  by (simp add: createAlertsFromDetections_def alerts_loop_invalid valid_alert_def alert_of_def)

text \<open>
  Claim C6. A building-height job completes with one detection of confidence 87: its close
  handler saves the document as completed and calls no alert evaluation, so the alert
  collection stays empty although 87 is above every threshold in use. The claim has one
  alert per detection at or above the threshold for every completed job.
  \<^verbatim>\<open>createAlertsFromDetections\<close> is called by \<^verbatim>\<open>processGeographicArea\<close> only, after the
  save of a document without \<^verbatim>\<open>processingId\<close>, which the schema rejects: with detections of
  confidence 75 and 40 the request is answered with the validation error and neither a
  record nor an alert is written. Called on these two detections with a user, a zone name
  and the default threshold, the function itself creates the one alert of the 75.
\<close>

theorem completed_height_job_raises_no_alert:
  "run P87 (trace_close BuildingHeight (Some 0) ''{}'' []) init \<noteq> None \<and>
   map status (sys_store (the (run P87 (trace_close BuildingHeight (Some 0) ''{}'' []) init)))
     = [Completed] \<and>
   map (map det_confidence \<circ> detections)
       (sys_store (the (run P87 (trace_close BuildingHeight (Some 0) ''{}'' []) init)))
     = [[87]] \<and>
   sys_alerts (the (run P87 (trace_close BuildingHeight (Some 0) ''{}'' []) init)) = [] \<and>
   processGeographicArea parse_two ck0 (seg_req_zone [- 0.005, 0, 0.005, 0.01])
       (Closed (Some 0) ''{}'' []) ([], []) = (SegFailed validation_message, [], []) \<and>
   createAlertsFromDetections ''65f000000000000000000001'' (Some ''Amazon North'')
       [plain_detection 75, plain_detection 40] None [] =
     ([alert_of ''65f000000000000000000001'' (Some ''Amazon North'') (plain_detection 75)], 1) \<and>
   al_severity (alert_of ''65f000000000000000000001'' (Some ''Amazon North'') (plain_detection 75))
     = Medium"
  by (simp add: trace_close_def P87_def parse_two_def seg_req_zone_def plain_detection_def
        processGeographicArea_def processAreaWithSatelliteData_def calculateAreaSize_def
        createAlertsFromDetections_def valid_alert_def alert_of_def is_object_id_def is_hex_def
        alert_types_def nth_opt_def calculateEnvironmentalRisk_def eval_defs)

section \<open>Lifecycle of a job record\<close>

text \<open>
  Claim C9. In every state the orchestrator can reach, a document has detections or a
  summary only when it is completed and an error only when it is failed, never both. A
  document that is completed or failed is the same document in every later state, so it
  never returns to queued or processing. Polling leaves the state as it is, however often
  it is repeated, and a poll that returned a completed or failed document returns the same
  payload in every later state.
\<close>

theorem job_record_lifecycle:
  assumes "run P es init = Some s" and "run P es' s = Some s'"
  shows "(\<forall>r \<in> set (sys_store s).
            ((detections r \<noteq> [] \<or> summary r \<noteq> None) \<longrightarrow> status r = Completed) \<and>
            (meta_error r \<noteq> None \<longrightarrow> status r = Failed) \<and>
            \<not> ((detections r \<noteq> [] \<or> summary r \<noteq> None) \<and> meta_error r \<noteq> None)) \<and>
         (\<forall>i < length (sys_store s). terminal (status (sys_store s ! i)) \<longrightarrow>
            i < length (sys_store s') \<and> sys_store s' ! i = sys_store s ! i \<and>
            status (sys_store s' ! i) \<noteq> Processing \<and> status (sys_store s' ! i) \<noteq> Queued) \<and>
         (\<forall>pid n. snd (getHeightResults pid (sys_store s)) = sys_store s \<and>
            run P (replicate n (Poll pid)) s = Some s) \<and>
         (\<forall>pid i r. findOne pid (sys_store s) = Some (i, r) \<and> terminal (status r) \<longrightarrow>
            fst (getHeightResults pid (sys_store s')) = fst (getHeightResults pid (sys_store s)))"
proof -
  have i: "inv s"
    using assms(1) by (rule reachable_inv)
  have st: "stable (sys_store s) (sys_store s')"
    using run_inv_stable [OF i assms(2)] by blast
  have a: "\<forall>r \<in> set (sys_store s).
            ((detections r \<noteq> [] \<or> summary r \<noteq> None) \<longrightarrow> status r = Completed) \<and>
            (meta_error r \<noteq> None \<longrightarrow> status r = Failed) \<and>
            \<not> ((detections r \<noteq> [] \<or> summary r \<noteq> None) \<and> meta_error r \<noteq> None)"
    using i by (auto simp add: inv_def populated_ok_def)
  have b: "\<forall>i < length (sys_store s). terminal (status (sys_store s ! i)) \<longrightarrow>
            i < length (sys_store s') \<and> sys_store s' ! i = sys_store s ! i \<and>
            status (sys_store s' ! i) \<noteq> Processing \<and> status (sys_store s' ! i) \<noteq> Queued"
    using st by (auto simp add: stable_def terminal_def)
  have c: "\<forall>pid n. snd (getHeightResults pid (sys_store s)) = sys_store s \<and>
            run P (replicate n (Poll pid)) s = Some s"
    by (simp add: poll_leaves_store polls_leave_state)
  have d: "\<forall>pid i r. findOne pid (sys_store s) = Some (i, r) \<and> terminal (status r) \<longrightarrow>
            fst (getHeightResults pid (sys_store s')) = fst (getHeightResults pid (sys_store s))"
    using poll_same_answer [OF st] by blast
  from a b c d show ?thesis
    by blast
qed

theorem job_record_lifecycle_witness:
  "\<exists>s s'. run P0 trace_completed init = Some s \<and> run P0 trace_more s = Some s' \<and>
      map status (sys_store s) = [Completed] \<and> map status (sys_store s') = [Completed, Failed] \<and>
      sys_store s' ! 0 = sys_store s ! 0 \<and>
      fst (getHeightResults pid_height0 (sys_store s')) = fst (getHeightResults pid_height0 (sys_store s))"
proof -
  define s where "s = the (run P0 trace_completed init)"
  define s' where "s' = the (run P0 trace_more s)"
  have s: "run P0 trace_completed init = Some s" "map status (sys_store s) = [Completed]"
      "\<exists>r. findOne pid_height0 (sys_store s) = Some (0, r) \<and> terminal (status r)"
    by (simp_all add: s_def trace_completed_def pid_height0_def terminal_def eval_defs)
  have s': "run P0 trace_more s = Some s'" "map status (sys_store s') = [Completed, Failed]"
    by (simp_all add: s'_def s_def trace_completed_def trace_more_def pid_height0_def eval_defs)
  have "sys_store s' ! 0 = sys_store s ! 0"
    and "fst (getHeightResults pid_height0 (sys_store s')) = fst (getHeightResults pid_height0 (sys_store s))"
    using job_record_lifecycle [OF s(1) s'(1)] s(2,3)
    by (auto simp add: terminal_def)
  with s s' show ?thesis
    by auto
qed

end
